theory Spec2Isabelle
  imports Main "HOL-Library.Sublist"
begin

section \<open>Python values, dictionaries and exceptions\<close>

text \<open>
  The handlers of \<^verbatim>\<open>wandbot/apps/slack/__main__.py\<close> work on the JSON payloads of the
  chat platform: dictionaries from strings to scalar values. A scalar is \<^verbatim>\<open>None\<close>, a
  string, an integer or a boolean. A dictionary is an association list that is looked up
  from the left.
\<close>

datatype pyval = PNone | PStr string | PInt int | PBool bool

text \<open>Truth value testing, as Python's \<^verbatim>\<open>bool(x)\<close>.\<close>

fun truthy :: "pyval \<Rightarrow> bool" where
  "truthy PNone = False"
| "truthy (PStr s) = (s \<noteq> [])"
| "truthy (PInt n) = (n \<noteq> 0)"
| "truthy (PBool b) = b"

text \<open>\<^verbatim>\<open>a or b\<close>: the first operand when it is truthy, the second otherwise.\<close>

definition py_or :: "pyval \<Rightarrow> pyval \<Rightarrow> pyval" where
  "py_or a b = (if truthy a then a else b)"

type_synonym pydict = "(string \<times> pyval) list"

text \<open>
  Exceptions. Every constructor but \<open>Interrupt\<close> stands for an instance of Python's
  \<^verbatim>\<open>Exception\<close>; \<open>Interrupt\<close> stands for the exceptions that derive from
  \<^verbatim>\<open>BaseException\<close> only (\<^verbatim>\<open>KeyboardInterrupt\<close>, \<^verbatim>\<open>SystemExit\<close>,
  \<^verbatim>\<open>asyncio.CancelledError\<close>), which \<^verbatim>\<open>except Exception\<close> lets through.
  \<open>External\<close> is a failure reported by a collaborator (the chat platform, the
  question-answering API, the index library).
\<close>

datatype exn =
    KeyError string
  | IndexError int
  | ValueError string
  | TypeError string
  | External string
  | Interrupt string

fun is_Exception :: "exn \<Rightarrow> bool" where
  "is_Exception (Interrupt m) = False"
| "is_Exception e = True"

text \<open>\<^verbatim>\<open>d.get(k)\<close> and \<^verbatim>\<open>d.get(k, None)\<close>.\<close>

definition dict_get :: "pydict \<Rightarrow> string \<Rightarrow> pyval" where
  "dict_get d k = (case map_of d k of Some v \<Rightarrow> v | None \<Rightarrow> PNone)"

text \<open>\<^verbatim>\<open>d[k]\<close>: a missing key raises \<^verbatim>\<open>KeyError\<close>.\<close>

definition dict_item :: "pydict \<Rightarrow> string \<Rightarrow> exn + pyval" where
  "dict_item d k = (case map_of d k of Some v \<Rightarrow> Inr v | None \<Rightarrow> Inl (KeyError k))"

text \<open>A key of the event payload whose value is itself a dictionary or a scalar.\<close>

definition item_opt :: "string \<Rightarrow> 'a option \<Rightarrow> exn + 'a" where
  "item_opt k v = (case v of Some x \<Rightarrow> Inr x | None \<Rightarrow> Inl (KeyError k))"

section \<open>Effects: calls to collaborators, with a trace\<close>

text \<open>
  A handler is a sequence of awaited calls to outside collaborators. An outside call takes
  the state \<open>'w\<close> of the outside world and returns a value or raises, and a new state. A
  handler threads the world and a trace of the calls it made, each with its arguments and
  its outcome, in the order it made them.
\<close>

type_synonym ('a, 'w) extern = "'w \<Rightarrow> (exn + 'a) \<times> 'w"

type_synonym ('a, 'w, 'e) io = "'w \<times> 'e list \<Rightarrow> (exn + 'a) \<times> ('w \<times> 'e list)"

definition ret :: "'a \<Rightarrow> ('a, 'w, 'e) io" where
  "ret a = (\<lambda>s. (Inr a, s))"

definition lift :: "exn + 'a \<Rightarrow> ('a, 'w, 'e) io" where
  "lift r = (\<lambda>s. (r, s))"

definition bind :: "('a, 'w, 'e) io \<Rightarrow> ('a \<Rightarrow> ('b, 'w, 'e) io) \<Rightarrow> ('b, 'w, 'e) io" where
  "bind m f = (\<lambda>s. case m s of (Inl e, s') \<Rightarrow> (Inl e, s') | (Inr a, s') \<Rightarrow> f a s')"

text \<open>An awaited outside call: run it on the world and append it to the trace.\<close>

definition perform :: "(exn + 'a \<Rightarrow> 'e) \<Rightarrow> ('a, 'w) extern \<Rightarrow> ('a, 'w, 'e) io" where
  "perform ev call = (\<lambda>(w, tr). case call w of (r, w') \<Rightarrow> (r, (w', tr @ [ev r])))"

text \<open>A logging call: it is recorded and does not raise.\<close>

definition note_event :: "'e \<Rightarrow> (unit, 'w, 'e) io" where
  "note_event e = (\<lambda>(w, tr). (Inr (), (w, tr @ [e])))"

text \<open>\<^verbatim>\<open>try: m  except Exception as e: h(e)\<close>.\<close>

definition try_except ::
  "('a, 'w, 'e) io \<Rightarrow> (exn \<Rightarrow> ('a, 'w, 'e) io) \<Rightarrow> ('a, 'w, 'e) io" where
  "try_except m h = (\<lambda>s. case m s of
      (Inl e, s') \<Rightarrow> (if is_Exception e then h e s' else (Inl e, s'))
    | (Inr a, s') \<Rightarrow> (Inr a, s'))"

section \<open>The Slack application\<close>

text \<open>
  The response of the chat platform to a call: its data, and the list under the key
  \<^verbatim>\<open>messages\<close> when there is one. \<^verbatim>\<open>response[key]\<close> and \<^verbatim>\<open>response.get(key)\<close> both return
  \<^verbatim>\<open>None\<close> for a key that is absent.
\<close>

record slack_response =
  resp_data :: pydict
  resp_messages :: "pydict list option"

text \<open>The answer of the ad-copy endpoint; the handler reads its attribute \<^verbatim>\<open>ad_copies\<close>.\<close>

record ads_response =
  ad_copies :: string

text \<open>
  The calls a handler makes, as they appear in the trace. \<open>'h\<close> is an entry of the chat
  history and \<open>'r\<close> the structured answer of the question-answering API.
\<close>

datatype ('h, 'r) event =
    Ack "exn + unit"
  | LogInfo string
  | LogError exn
  | GetInitialMessage pydict pyval "exn + pydict"
  | GetChatHistory string pyval "exn + 'h list"
  | Say string "pyval option" "exn + slack_response"
  | SayBlocks "pydict list" pyval "exn + slack_response"
  | SayCopies string pyval "exn + slack_response"
  | Query pyval "'h list" string string "exn + 'r"
  | ReactionsAdd pyval pyval string "exn + unit"
  | CreateQuestionAnswer pyval pyval string pydict "exn + unit"
  | GenerateAds pyval string string "exn + ads_response"
  | ConversationsReplies pyval pyval "exn + slack_response"
  | CreateFeedback pyval pyval int "exn + unit"

text \<open>
  The collaborators and the configuration. None of them is defined in the files at hand:
  \<^verbatim>\<open>ack\<close> and \<^verbatim>\<open>say\<close> are handed to the handler by the framework, the others are
  \<^verbatim>\<open>app.client\<close>, \<^verbatim>\<open>api_client\<close>, \<^verbatim>\<open>get_initial_message\<close>, \<^verbatim>\<open>get_adcopy_blocks\<close>,
  \<^verbatim>\<open>MrkdwnFormatter\<close>, \<^verbatim>\<open>format_response\<close> and \<^verbatim>\<open>config\<close>. \<open>intro_format u\<close> is
  \<^verbatim>\<open>config.INTRO_MESSAGE.format(user=u)\<close>; \<open>format_response r o\<close> is
  \<^verbatim>\<open>format_response(config, r, o)\<close>; \<open>model_dump r\<close> is \<^verbatim>\<open>r.model_dump()\<close>.
\<close>

record ('w, 'h, 'r) env =
  ack :: "(unit, 'w) extern"
  get_initial_message :: "pydict \<Rightarrow> pyval \<Rightarrow> (pydict, 'w) extern"
  get_chat_history :: "string \<Rightarrow> pyval \<Rightarrow> ('h list, 'w) extern"
  say :: "string \<Rightarrow> pyval option \<Rightarrow> (slack_response, 'w) extern"
  say_blocks :: "pydict list \<Rightarrow> pyval \<Rightarrow> (slack_response, 'w) extern"
  say_copies :: "string \<Rightarrow> pyval \<Rightarrow> (slack_response, 'w) extern"
  query :: "pyval \<Rightarrow> 'h list \<Rightarrow> string \<Rightarrow> string \<Rightarrow> ('r, 'w) extern"
  reactions_add :: "pyval \<Rightarrow> pyval \<Rightarrow> string \<Rightarrow> (unit, 'w) extern"
  create_question_answer :: "pyval \<Rightarrow> pyval \<Rightarrow> string \<Rightarrow> pydict \<Rightarrow> (unit, 'w) extern"
  generate_ads :: "pyval \<Rightarrow> string \<Rightarrow> string \<Rightarrow> (ads_response, 'w) extern"
  conversations_replies :: "pyval \<Rightarrow> pyval \<Rightarrow> (slack_response, 'w) extern"
  create_feedback :: "pyval \<Rightarrow> pyval \<Rightarrow> int \<Rightarrow> (unit, 'w) extern"
  mrkdwn :: "string \<Rightarrow> exn + string"
  format_response :: "'r \<Rightarrow> string \<Rightarrow> exn + string"
  model_dump :: "'r \<Rightarrow> exn + pydict"
  intro_format :: "pyval \<Rightarrow> exn + string"
  get_adcopy_blocks :: "pydict list"
  APPLICATION :: string
  bot_language :: string
  OUTRO_MESSAGE :: string

text \<open>
  The body of an action: \<^verbatim>\<open>body["message"]\<close> and \<^verbatim>\<open>body["channel"]\<close> are dictionaries,
  and either key may be missing.
\<close>

record action_body =
  body_message :: "pydict option"
  body_channel :: "pydict option"

text \<open>
  The thread id of an originating message, as the three handlers compute it:
  \<^verbatim>\<open>initial_message.get("thread_ts", None) or initial_message.get("ts", None)\<close>.
\<close>

definition thread_id_of :: "pydict \<Rightarrow> pyval" where
  "thread_id_of initial_message =
     py_or (dict_get initial_message ''thread_ts'') (dict_get initial_message ''ts'')"

text \<open>\<^verbatim>\<open>send_message(say, message, thread)\<close>.\<close>

definition send_message ::
  "('w, 'h, 'r) env \<Rightarrow> string \<Rightarrow> pyval \<Rightarrow> (slack_response, 'w, ('h, 'r) event) io" where
  "send_message E message thread =
     bind (lift (mrkdwn E message)) (\<lambda>message.
       if thread \<noteq> PNone
       then perform (Say message (Some thread)) (say E message (Some thread))
       else perform (Say message None) (say E message None))"

text \<open>
  The keyword arguments of \<^verbatim>\<open>create_question_answer\<close>: a field of the dumped answer named
  like one of the three explicit keywords makes the call itself raise \<^verbatim>\<open>TypeError\<close>.
\<close>

definition explicit_keywords :: "string list" where
  "explicit_keywords = [''thread_id'', ''question_answer_id'', ''language'']"

definition merge_kwargs :: "pydict \<Rightarrow> exn + pydict" where
  "merge_kwargs dumped =
     (if \<exists>k \<in> set explicit_keywords. k \<in> fst ` set dumped
      then Inl (TypeError ''got multiple values for keyword argument'')
      else Inr dumped)"

text \<open>The guarded steps of \<^verbatim>\<open>docsbot_handler\<close>: the body of its \<^verbatim>\<open>try\<close>.\<close>

definition docsbot_steps ::
  "('w, 'h, 'r) env \<Rightarrow> pydict \<Rightarrow> pyval \<Rightarrow> (unit, 'w, ('h, 'r) event) io" where
  "docsbot_steps E initial_message channel_id =
     (let query_text = dict_get initial_message ''text'';
          user = dict_get initial_message ''user'';
          thread_id = thread_id_of initial_message
      in
      bind (perform (GetChatHistory (APPLICATION E) thread_id)
              (get_chat_history E (APPLICATION E) thread_id)) (\<lambda>chat_history.
      bind (if chat_history = []
            then bind (lift (intro_format E user)) (\<lambda>intro.
                 bind (send_message E intro thread_id) (\<lambda>_. ret ()))
            else ret ()) (\<lambda>_.
      bind (perform (Query query_text chat_history (bot_language E) (APPLICATION E))
              (query E query_text chat_history (bot_language E) (APPLICATION E))) (\<lambda>api_response.
      bind (lift (format_response E api_response (OUTRO_MESSAGE E))) (\<lambda>response.
      bind (send_message E response thread_id) (\<lambda>sent_message.
      bind (perform (ReactionsAdd channel_id (dict_get (resp_data sent_message) ''ts'') ''thumbsup'')
              (reactions_add E channel_id (dict_get (resp_data sent_message) ''ts'') ''thumbsup'')) (\<lambda>_.
      bind (perform (ReactionsAdd channel_id (dict_get (resp_data sent_message) ''ts'') ''thumbsdown'')
              (reactions_add E channel_id (dict_get (resp_data sent_message) ''ts'') ''thumbsdown'')) (\<lambda>_.
      bind (lift (model_dump E api_response)) (\<lambda>dumped.
      bind (lift (merge_kwargs dumped)) (\<lambda>kwargs.
        perform (CreateQuestionAnswer thread_id (dict_get (resp_data sent_message) ''ts'')
                   (bot_language E) kwargs)
          (create_question_answer E thread_id (dict_get (resp_data sent_message) ''ts'')
             (bot_language E) kwargs)))))))))))"

text \<open>
  The originating message of an action, resolved outside every guard:
  \<^verbatim>\<open>get_initial_message(app, body["message"], body["channel"].get("id"), token)\<close>, between
  two logging calls.
\<close>

definition resolve_initial_message ::
  "('w, 'h, 'r) env \<Rightarrow> action_body \<Rightarrow> (pydict \<times> pyval, 'w, ('h, 'r) event) io" where
  "resolve_initial_message E body =
     bind (note_event (LogInfo ''Received message'')) (\<lambda>_.
     bind (lift (item_opt ''message'' (body_message body))) (\<lambda>message.
     bind (lift (item_opt ''channel'' (body_channel body))) (\<lambda>channel.
     bind (perform (GetInitialMessage message (dict_get channel ''id''))
             (get_initial_message E message (dict_get channel ''id''))) (\<lambda>initial_message.
     bind (note_event (LogInfo ''Initial message'')) (\<lambda>_.
       ret (initial_message, dict_get channel ''id''))))))"

text \<open>\<^verbatim>\<open>docsbot_handler\<close>, the action \<^verbatim>\<open>docsbot\<close>.\<close>

definition docsbot_handler ::
  "('w, 'h, 'r) env \<Rightarrow> action_body \<Rightarrow> (unit, 'w, ('h, 'r) event) io" where
  "docsbot_handler E body =
     bind (perform Ack (ack E)) (\<lambda>_.
     bind (resolve_initial_message E body) (\<lambda>(initial_message, channel_id).
       try_except (docsbot_steps E initial_message channel_id)
         (\<lambda>e. note_event (LogError e))))"

text \<open>\<^verbatim>\<open>adcopy_handler\<close>, the action \<^verbatim>\<open>adcopy\<close>.\<close>

definition adcopy_handler ::
  "('w, 'h, 'r) env \<Rightarrow> action_body \<Rightarrow> (unit, 'w, ('h, 'r) event) io" where
  "adcopy_handler E body =
     bind (perform Ack (ack E)) (\<lambda>_.
     bind (resolve_initial_message E body) (\<lambda>(initial_message, channel_id).
       (let thread_ts = thread_id_of initial_message;
            adcopy_blocks = get_adcopy_blocks E
        in bind (perform (SayBlocks adcopy_blocks thread_ts)
                   (say_blocks E adcopy_blocks thread_ts)) (\<lambda>_. ret ()))))"

text \<open>\<^verbatim>\<open>handle_adcopy_action\<close>, shared by the four ad-copy actions.\<close>

definition handle_adcopy_action ::
  "('w, 'h, 'r) env \<Rightarrow> action_body \<Rightarrow> string \<Rightarrow> string \<Rightarrow> (unit, 'w, ('h, 'r) event) io" where
  "handle_adcopy_action E body action persona =
     bind (resolve_initial_message E body) (\<lambda>(initial_message, channel_id).
       (let query_text = dict_get initial_message ''text'' in
        bind (perform (GenerateAds query_text action persona)
                (generate_ads E query_text action persona)) (\<lambda>api_response.
          (let thread_ts = thread_id_of initial_message in
           bind (perform (SayCopies (ad_copies api_response) thread_ts)
                   (say_copies E (ad_copies api_response) thread_ts)) (\<lambda>_. ret ())))))"

definition executive_awareness_handler ::
  "('w, 'h, 'r) env \<Rightarrow> action_body \<Rightarrow> (unit, 'w, ('h, 'r) event) io" where
  "executive_awareness_handler E body =
     bind (perform Ack (ack E)) (\<lambda>_. handle_adcopy_action E body ''awareness'' ''executive'')"

definition executive_signups_handler ::
  "('w, 'h, 'r) env \<Rightarrow> action_body \<Rightarrow> (unit, 'w, ('h, 'r) event) io" where
  "executive_signups_handler E body =
     bind (perform Ack (ack E)) (\<lambda>_. handle_adcopy_action E body ''signups'' ''executive'')"

definition technical_awareness_handler ::
  "('w, 'h, 'r) env \<Rightarrow> action_body \<Rightarrow> (unit, 'w, ('h, 'r) event) io" where
  "technical_awareness_handler E body =
     bind (perform Ack (ack E)) (\<lambda>_. handle_adcopy_action E body ''awareness'' ''technical'')"

definition technical_signups_handler ::
  "('w, 'h, 'r) env \<Rightarrow> action_body \<Rightarrow> (unit, 'w, ('h, 'r) event) io" where
  "technical_signups_handler E body =
     bind (perform Ack (ack E)) (\<lambda>_. handle_adcopy_action E body ''signups'' ''technical'')"

text \<open>\<^verbatim>\<open>parse_reaction\<close>. The comparison \<^verbatim>\<open>==\<close> is defined on every value.\<close>

definition parse_reaction :: "pyval \<Rightarrow> int" where
  "parse_reaction reaction =
     (if reaction = PStr ''+1'' then 1
      else if reaction = PStr ''-1'' then - 1
      else 0)"

text \<open>
  The event of an added reaction: \<^verbatim>\<open>event["item"]\<close> is a dictionary; \<^verbatim>\<open>event["reaction"]\<close>
  and \<^verbatim>\<open>event["event_ts"]\<close> are scalars. Each key may be missing.
\<close>

record reaction_event =
  event_item :: "pydict option"
  event_reaction :: "pyval option"
  event_ts :: "pyval option"

text \<open>\<^verbatim>\<open>handle_reaction_added\<close>, the event \<^verbatim>\<open>reaction_added\<close>.\<close>

definition handle_reaction_added ::
  "('w, 'h, 'r) env \<Rightarrow> reaction_event \<Rightarrow> (unit, 'w, ('h, 'r) event) io" where
  "handle_reaction_added E event =
     bind (lift (item_opt ''item'' (event_item event))) (\<lambda>item.
     bind (lift (dict_item item ''channel'')) (\<lambda>channel_id.
     bind (lift (dict_item item ''ts'')) (\<lambda>message_ts.
     bind (perform (ConversationsReplies channel_id message_ts)
             (conversations_replies E channel_id message_ts)) (\<lambda>conversation.
       (case resp_messages conversation of
          None \<Rightarrow> ret ()
        | Some messages \<Rightarrow>
            if messages \<noteq> [] \<and> length messages \<noteq> 0
            then (let thread_ts = dict_get (hd messages) ''thread_ts'' in
                  if truthy thread_ts
                  then bind (lift (item_opt ''reaction'' (event_reaction event))) (\<lambda>reaction.
                       (let rating = parse_reaction reaction in
                        bind (lift (item_opt ''event_ts'' (event_ts event))) (\<lambda>feedback_id.
                          perform (CreateFeedback feedback_id message_ts rating)
                            (create_feedback E feedback_id message_ts rating))))
                  else ret ())
            else ret ())))))"

section \<open>Loading the vector index\<close>

text \<open>
  \<^verbatim>\<open>load_index\<close> of \<^verbatim>\<open>wandbot/utils.py\<close>. The index library is a collaborator:
  \<^verbatim>\<open>load_index_from_storage\<close>, the constructor \<^verbatim>\<open>VectorStoreIndex\<close> and
  \<^verbatim>\<open>index.storage_context.persist\<close>.
\<close>

datatype ('n, 'c, 's, 'i) index_event =
    LoadIndexFromStorage 's "exn + 'i"
  | BuildIndex 'n 'c 's "exn + 'i"
  | Persist 'i string "exn + unit"

record ('w, 'n, 'c, 's, 'i) index_lib =
  load_index_from_storage :: "'s \<Rightarrow> ('i, 'w) extern"
  VectorStoreIndex :: "'n \<Rightarrow> 'c \<Rightarrow> 's \<Rightarrow> ('i, 'w) extern"
  persist :: "'i \<Rightarrow> string \<Rightarrow> (unit, 'w) extern"

definition load_index ::
  "('w, 'n, 'c, 's, 'i) index_lib \<Rightarrow> 'n \<Rightarrow> 'c \<Rightarrow> 's \<Rightarrow> string
     \<Rightarrow> ('i, 'w, ('n, 'c, 's, 'i) index_event) io" where
  "load_index L nodes service_context storage_context persist_dir =
     try_except
       (perform (LoadIndexFromStorage storage_context)
          (load_index_from_storage L storage_context))
       (\<lambda>e. bind (perform (BuildIndex nodes service_context storage_context)
                     (VectorStoreIndex L nodes service_context storage_context)) (\<lambda>index.
             bind (perform (Persist index persist_dir) (persist L index persist_dir)) (\<lambda>_.
               ret index)))"

section \<open>Observing a trace\<close>

text \<open>The thread a call is addressed to, for the calls that take one.\<close>

fun thread_used :: "('h, 'r) event \<Rightarrow> pyval option" where
  "thread_used (GetChatHistory a t r) = Some t"
| "thread_used (Say m th r) = th"
| "thread_used (SayBlocks b t r) = Some t"
| "thread_used (SayCopies c t r) = Some t"
| "thread_used (CreateQuestionAnswer t q l k r) = Some t"
| "thread_used e = None"

text \<open>The calls that send a text message or query the question-answering API.\<close>

fun is_send_or_query :: "('h, 'r) event \<Rightarrow> bool" where
  "is_send_or_query (Say m th r) = True"
| "is_send_or_query (Query q h l a r) = True"
| "is_send_or_query e = False"

text \<open>
  The thread argument of \<^verbatim>\<open>send_message\<close>: \<^verbatim>\<open>thread_ts\<close> is passed unless the thread is
  \<^verbatim>\<open>None\<close>.
\<close>

definition to_thread :: "pyval \<Rightarrow> pyval option" where
  "to_thread thread = (if thread \<noteq> PNone then Some thread else None)"

text \<open>
  What a run of \<^verbatim>\<open>docsbot_handler\<close> sends and queries once the intro is dealt with: nothing,
  or the query alone, or the query and then the formatted answer in the thread.
\<close>

definition answer_tail :: "('w, 'h, 'r) env \<Rightarrow> pydict \<Rightarrow> 'h list \<Rightarrow> ('h, 'r) event list \<Rightarrow> bool" where
  "answer_tail E im h evs \<longleftrightarrow>
     evs = [] \<or>
     (\<exists>r. evs = [Query (dict_get im ''text'') h (bot_language E) (APPLICATION E) r]) \<or>
     (\<exists>r resp answer sent.
        evs = [Query (dict_get im ''text'') h (bot_language E) (APPLICATION E) (Inr r),
               Say answer (to_thread (thread_id_of im)) sent]
        \<and> format_response E r (OUTRO_MESSAGE E) = Inr resp \<and> mrkdwn E resp = Inr answer)"


section \<open>A sample environment\<close>

text \<open>
  Collaborators that always succeed: the world is a counter of the messages sent, and a sent
  message gets the counter as its timestamp.
\<close>

definition demo_env :: "(nat, string, pydict) env" where
  "demo_env = \<lparr>
     ack = (\<lambda>w. (Inr (), w)),
     get_initial_message = (\<lambda>m c w. (Inr m, w)),
     get_chat_history = (\<lambda>a t w. (Inr [], w)),
     say = (\<lambda>m th w. (Inr \<lparr>resp_data = [(''ts'', PInt (int w))], resp_messages = None\<rparr>, Suc w)),
     say_blocks = (\<lambda>b th w. (Inr \<lparr>resp_data = [(''ts'', PInt (int w))], resp_messages = None\<rparr>, Suc w)),
     say_copies = (\<lambda>c th w. (Inr \<lparr>resp_data = [(''ts'', PInt (int w))], resp_messages = None\<rparr>, Suc w)),
     query = (\<lambda>q h l a w. (Inr [(''answer'', PStr ''Call wandb.log'')], w)),
     reactions_add = (\<lambda>c t n w. (Inr (), w)),
     create_question_answer = (\<lambda>t q l k w. (Inr (), w)),
     generate_ads = (\<lambda>q a p w. (Inr \<lparr>ad_copies = ''Try it''\<rparr>, w)),
     conversations_replies = (\<lambda>c t w.
        (Inr \<lparr>resp_data = [], resp_messages = Some [[(''ts'', t), (''thread_ts'', PStr ''T1'')]]\<rparr>, w)),
     create_feedback = (\<lambda>f q r w. (Inr (), w)),
     mrkdwn = Inr,
     format_response = (\<lambda>r out. Inr (''Answer'' @ out)),
     model_dump = Inr,
     intro_format = (\<lambda>u. Inr ''Hi''),
     get_adcopy_blocks = [],
     APPLICATION = ''Slack_EN'',
     bot_language = ''en'',
     OUTRO_MESSAGE = ''.''\<rparr>"

definition demo_body :: "pydict \<Rightarrow> action_body" where
  "demo_body initial_message =
     \<lparr>body_message = Some initial_message, body_channel = Some [(''id'', PStr ''C1'')]\<rparr>"

text \<open>Sample messages, sample events and collaborators that fail.\<close>

definition scenario_message :: pydict where
  "scenario_message =
     [(''text'', PStr ''How do I log a metric?''), (''user'', PStr ''U2''), (''ts'', PStr ''T2'')]"

definition threaded_message :: pydict where
  "threaded_message =
     [(''text'', PStr ''And a table?''), (''user'', PStr ''U2''), (''thread_ts'', PStr ''T1''),
      (''ts'', PStr ''T3'')]"

definition falsy_thread_message :: pydict where
  "falsy_thread_message =
     [(''text'', PStr ''How do I log a metric?''), (''thread_ts'', PStr ''''), (''ts'', PStr ''T2'')]"

definition failing_ads_env :: "(nat, string, pydict) env" where
  "failing_ads_env =
     demo_env\<lparr>generate_ads := (\<lambda>q a p w. (Inl (External ''ads endpoint unavailable''), w))\<rparr>"

definition failing_query_env :: "(nat, string, pydict) env" where
  "failing_query_env =
     demo_env\<lparr>query := (\<lambda>q h l a w. (Inl (External ''api unavailable''), w))\<rparr>"

definition history_env :: "(nat, string, pydict) env" where
  "history_env =
     demo_env\<lparr>get_chat_history := (\<lambda>a t w. (Inr [''How do I log a metric?''], w))\<rparr>"

definition demo_index_lib :: "(nat, string list, unit, unit, string list) index_lib" where
  "demo_index_lib = \<lparr>
     load_index_from_storage = (\<lambda>s w. (Inl (External ''No index in storage context''), w)),
     VectorStoreIndex = (\<lambda>n c s w. (Inr n, Suc w)),
     persist = (\<lambda>i d w. (Inr (), Suc w))\<rparr>"

definition reaction_plus_one :: reaction_event where
  "reaction_plus_one =
     \<lparr>event_item = Some [(''channel'', PStr ''C1''), (''ts'', PStr ''T3'')],
      event_reaction = Some (PStr ''+1''),
      event_ts = Some (PStr ''E9'')\<rparr>"

definition unthreaded_env :: "(nat, string, pydict) env" where
  "unthreaded_env =
     demo_env\<lparr>conversations_replies := (\<lambda>c t w.
        (Inr \<lparr>resp_data = [], resp_messages = Some [[(''ts'', t)]]\<rparr>, w))\<rparr>"

definition failing_ack_env :: "(nat, string, pydict) env" where
  "failing_ack_env = demo_env\<lparr>ack := (\<lambda>w. (Inl (External ''ack failed''), w))\<rparr>"

definition failing_lookup_env :: "(nat, string, pydict) env" where
  "failing_lookup_env =
     demo_env\<lparr>get_initial_message := (\<lambda>m c w. (Inl (External ''lookup failed''), w))\<rparr>"

definition failing_replies_env :: "(nat, string, pydict) env" where
  "failing_replies_env =
     demo_env\<lparr>conversations_replies := (\<lambda>c t w. (Inl (External ''replies unavailable''), w))\<rparr>"

definition reaction_minus_one :: reaction_event where
  "reaction_minus_one =
     \<lparr>event_item = Some [(''channel'', PStr ''C1''), (''ts'', PStr ''T3'')],
      event_reaction = Some (PStr ''-1''),
      event_ts = Some (PStr ''E10'')\<rparr>"

definition reaction_heart :: reaction_event where
  "reaction_heart =
     \<lparr>event_item = Some [(''channel'', PStr ''C1''), (''ts'', PStr ''T3'')],
      event_reaction = Some (PStr ''heart''),
      event_ts = Some (PStr ''E11'')\<rparr>"

section \<open>Partial formatting of a prompt template\<close>

text \<open>
  \<^verbatim>\<open>partial_format\<close> of \<^verbatim>\<open>wandbot/chat/prompts.py\<close> is written with three operations of
  Python strings: \<^verbatim>\<open>str.replace\<close>, \<^verbatim>\<open>string.Formatter().parse\<close> and \<^verbatim>\<open>str.format\<close>.

  \<^verbatim>\<open>s.replace(old, new)\<close> replaces the occurrences of \<^verbatim>\<open>old\<close> from the left, without overlap;
  an empty \<^verbatim>\<open>old\<close> matches before every character and at the end.
\<close>

function str_replace_from :: "string \<Rightarrow> string \<Rightarrow> string \<Rightarrow> string" where
  "str_replace_from [] old new = []"
| "str_replace_from (c # cs) old new =
     (if old \<noteq> [] \<and> prefix old (c # cs)
      then new @ str_replace_from (drop (length old) (c # cs)) old new
      else c # str_replace_from cs old new)"
  by pat_completeness auto

termination
  by (relation "measure (\<lambda>(s, old, new). length s)") auto

definition str_replace :: "string \<Rightarrow> string \<Rightarrow> string \<Rightarrow> string" where
  "str_replace s old new =
     (if old = [] then new @ concat (map (\<lambda>c. c # new) s) else str_replace_from s old new)"

type_synonym field = "string \<times> string \<times> char option"

type_synonym item = "string \<times> field option"

text \<open>
  The scanner of format strings that \<^verbatim>\<open>Formatter().parse\<close> and \<^verbatim>\<open>str.format\<close> share. After an
  opening brace it reads the field name up to \<^verbatim>\<open>}\<close>, \<^verbatim>\<open>:\<close> or \<^verbatim>\<open>!\<close>; inside square brackets
  these characters belong to the name. A conversion is one character after \<^verbatim>\<open>!\<close>. The format
  spec runs to the closing brace that matches, braces inside it are counted.
\<close>

fun scan_field_name :: "bool \<Rightarrow> string \<Rightarrow> exn + (string \<times> char \<times> string)" where
  "scan_field_name in_brackets [] = Inl (ValueError ''expected } before end of string'')"
| "scan_field_name True (c # cs) =
     (case scan_field_name (c \<noteq> CHR '']'') cs of
        Inl e \<Rightarrow> Inl e
      | Inr (name, stop, rest) \<Rightarrow> Inr (c # name, stop, rest))"
| "scan_field_name False (c # cs) =
     (if c = CHR ''{'' then Inl (ValueError ''unexpected { in field name'')
      else if c = CHR ''}'' \<or> c = CHR '':'' \<or> c = CHR ''!'' then Inr ([], c, cs)
      else (case scan_field_name (c = CHR ''['') cs of
              Inl e \<Rightarrow> Inl e
            | Inr (name, stop, rest) \<Rightarrow> Inr (c # name, stop, rest)))"

fun scan_format_spec :: "nat \<Rightarrow> string \<Rightarrow> exn + (string \<times> string)" where
  "scan_format_spec depth [] = Inl (ValueError ''unmatched { in format spec'')"
| "scan_format_spec depth (c # cs) =
     (if c = CHR ''}'' \<and> depth = 0 then Inr ([], cs)
      else (case scan_format_spec
                   (if c = CHR ''{'' then Suc depth else if c = CHR ''}'' then depth - 1 else depth) cs of
              Inl e \<Rightarrow> Inl e
            | Inr (spec, rest) \<Rightarrow> Inr (c # spec, rest)))"

definition conversion_of :: "char \<Rightarrow> char option" where
  "conversion_of c = (if c = CHR 0x00 then None else Some c)"

definition parse_format_spec :: "string \<Rightarrow> char option \<Rightarrow> string \<Rightarrow> exn + (field \<times> string)" where
  "parse_format_spec name conversion s =
     (case scan_format_spec 0 s of
        Inl e \<Rightarrow> Inl e
      | Inr (spec, rest) \<Rightarrow> Inr ((name, spec, conversion), rest))"

definition parse_field :: "string \<Rightarrow> exn + (field \<times> string)" where
  "parse_field s =
     (case scan_field_name False s of
        Inl e \<Rightarrow> Inl e
      | Inr (name, stop, rest) \<Rightarrow>
          if stop = CHR ''}'' then Inr ((name, [], None), rest)
          else if stop = CHR ''!'' then
            (case rest of
               [] \<Rightarrow> Inl (ValueError ''end of string while looking for conversion specifier'')
             | conversion # rest1 \<Rightarrow>
                 (case rest1 of
                    [] \<Rightarrow> parse_format_spec name (conversion_of conversion) rest1
                  | c # rest2 \<Rightarrow>
                      if c = CHR ''}'' then Inr ((name, [], conversion_of conversion), rest2)
                      else if c \<noteq> CHR '':''
                      then Inl (ValueError ''expected : after conversion specifier'')
                      else parse_format_spec name (conversion_of conversion) rest2))
          else parse_format_spec name None rest)"

definition is_brace :: "char \<Rightarrow> bool" where
  "is_brace c \<longleftrightarrow> c = CHR ''{'' \<or> c = CHR ''}''"

text \<open>
  One item of the scan: the literal text up to the next field, where \<^verbatim>\<open>{{\<close> and \<^verbatim>\<open>}}\<close> stand
  for one brace and end the literal, and the field that follows, if any.
\<close>

definition markup_next :: "string \<Rightarrow> exn + (item \<times> string)" where
  "markup_next s =
     (let literal = takeWhile (\<lambda>c. \<not> is_brace c) s in
      case dropWhile (\<lambda>c. \<not> is_brace c) s of
        [] \<Rightarrow> Inr ((literal, None), [])
      | c # rest \<Rightarrow>
          if c = CHR ''}'' \<and> (rest = [] \<or> hd rest \<noteq> c)
          then Inl (ValueError ''Single } encountered in format string'')
          else if rest = [] then Inl (ValueError ''Single { encountered in format string'')
          else if hd rest = c then Inr ((literal @ [c], None), tl rest)
          else (case parse_field rest of
                  Inl e \<Rightarrow> Inl e
                | Inr (f, rest') \<Rightarrow> Inr ((literal, Some f), rest')))"

text \<open>The sequence of items that the scan yields; a syntax error ends it.\<close>

function markup_items :: "string \<Rightarrow> (exn + item) list" where
  "markup_items s =
     (if s = [] then []
      else (case markup_next s of
              Inl e \<Rightarrow> [Inl e]
            | Inr (item, rest) \<Rightarrow> Inr item # markup_items rest))"
  by pat_completeness auto

termination
proof (relation "measure length")
  show "wf (measure length)" by simp
next
  fix s :: string and x item rest
  assume s: "s \<noteq> []" and nx: "markup_next s = Inr x" and x: "(item, rest) = x"
  have name: "\<And>b u n c r. scan_field_name b u = Inr (n, c, r) \<Longrightarrow> length r < length u"
  proof -
    fix b u n c r show "scan_field_name b u = Inr (n, c, r) \<Longrightarrow> length r < length u"
      by (induction b u arbitrary: n rule: scan_field_name.induct)
         (auto split: if_splits sum.splits prod.splits)
  qed
  have spec: "\<And>d u sp r. scan_format_spec d u = Inr (sp, r) \<Longrightarrow> length r < length u"
  proof -
    fix d u sp r show "scan_format_spec d u = Inr (sp, r) \<Longrightarrow> length r < length u"
      by (induction d u arbitrary: sp rule: scan_format_spec.induct)
         (auto split: if_splits sum.splits prod.splits)
  qed
  have field: "\<And>u f r. parse_field u = Inr (f, r) \<Longrightarrow> length r < length u"
    unfolding parse_field_def parse_format_spec_def
    by (auto split: sum.splits prod.splits if_splits list.splits dest!: name spec)
  have drop: "length (dropWhile (\<lambda>c. \<not> is_brace c) s) \<le> length s"
    by (rule length_dropWhile_le)
  from nx x s drop show "(rest, s) \<in> measure length"
    unfolding markup_next_def Let_def
    by (auto split: list.splits if_splits sum.splits prod.splits dest!: field)
qed

text \<open>
  \<^verbatim>\<open>Formatter().parse(s)\<close>, consumed to the end: the items, or the syntax error.
\<close>

fun collect :: "(exn + 'a) list \<Rightarrow> exn + 'a list" where
  "collect [] = Inr []"
| "collect (Inl e # xs) = Inl e"
| "collect (Inr x # xs) = (case collect xs of Inl e \<Rightarrow> Inl e | Inr ys \<Rightarrow> Inr (x # ys))"

definition formatter_parser :: "string \<Rightarrow> exn + item list" where
  "formatter_parser s = collect (markup_items s)"

text \<open>The field names of the items, in their order.\<close>

fun field_names :: "item list \<Rightarrow> string list" where
  "field_names [] = []"
| "field_names ((literal, None) # items) = field_names items"
| "field_names ((literal, Some (name, spec, conversion)) # items) = name # field_names items"

text \<open>
  \<^verbatim>\<open>str.format(**kwargs)\<close>: the first part of a field name, up to \<^verbatim>\<open>.\<close> or \<^verbatim>\<open>[\<close>, is looked up. An
  empty first part or a decimal number is a positional argument, and there is none. What a
  conversion, a format spec, an attribute or an index makes of the value that was looked up is
  the object protocol of Python, not code of \<^verbatim>\<open>partial_format\<close>: it is the parameter
  \<open>rend\<close>. A field that is a bare name gives the value itself.
\<close>

definition field_first :: "string \<Rightarrow> string \<times> string" where
  "field_first name =
     (takeWhile (\<lambda>c. c \<noteq> CHR ''.'' \<and> c \<noteq> CHR ''['') name,
      dropWhile (\<lambda>c. c \<noteq> CHR ''.'' \<and> c \<noteq> CHR ''['') name)"

definition is_decimal :: "string \<Rightarrow> bool" where
  "is_decimal s \<longleftrightarrow> s \<noteq> [] \<and> list_all (\<lambda>c. c \<in> set ''0123456789'') s"

definition decimal_value :: "string \<Rightarrow> int" where
  "decimal_value s = foldl (\<lambda>a c. 10 * a + (of_char c - 48)) 0 s"

definition PY_SSIZE_T_MAX :: int where
  "PY_SSIZE_T_MAX = 2 ^ 63 - 1"

definition get_field_object :: "(string \<rightharpoonup> string) \<Rightarrow> string \<Rightarrow> exn + string" where
  "get_field_object kwargs first =
     (if first = [] then Inl (IndexError 0)
      else if is_decimal first then
        (if decimal_value first > PY_SSIZE_T_MAX
         then Inl (ValueError ''Too many decimal digits in format string'')
         else Inl (IndexError (decimal_value first)))
      else (case kwargs first of
              None \<Rightarrow> Inl (KeyError first)
            | Some v \<Rightarrow> Inr v))"

type_synonym renderer = "(string \<rightharpoonup> string) \<Rightarrow> string \<Rightarrow> field \<Rightarrow> exn + string"

definition render_field :: "renderer \<Rightarrow> (string \<rightharpoonup> string) \<Rightarrow> field \<Rightarrow> exn + string" where
  "render_field rend kwargs f =
     (case f of (name, spec, conversion) \<Rightarrow>
        (case get_field_object kwargs (fst (field_first name)) of
           Inl e \<Rightarrow> Inl e
         | Inr v \<Rightarrow>
             if snd (field_first name) = [] \<and> conversion = None \<and> spec = [] then Inr v
             else rend kwargs v f))"

fun render_items :: "renderer \<Rightarrow> (string \<rightharpoonup> string) \<Rightarrow> (exn + item) list \<Rightarrow> exn + string" where
  "render_items rend kwargs [] = Inr []"
| "render_items rend kwargs (Inl e # items) = Inl e"
| "render_items rend kwargs (Inr (literal, f) # items) =
     (case (case f of None \<Rightarrow> Inr [] | Some fld \<Rightarrow> render_field rend kwargs fld) of
        Inl e \<Rightarrow> Inl e
      | Inr out \<Rightarrow>
          (case render_items rend kwargs items of
             Inl e \<Rightarrow> Inl e
           | Inr tail \<Rightarrow> Inr (literal @ out @ tail)))"

definition str_format :: "renderer \<Rightarrow> (string \<rightharpoonup> string) \<Rightarrow> string \<Rightarrow> exn + string" where
  "str_format rend kwargs s = render_items rend kwargs (markup_items s)"

text \<open>
  \<^verbatim>\<open>partial_format(s, **kwargs)\<close>. The placeholders are a Python \<^verbatim>\<open>set\<close>; the order in which
  the two loops run through it is the parameter \<open>set_order\<close>.
\<close>

definition temp_prefix :: string where
  "temp_prefix = ''TEMP_PLACEHOLDER_''"

definition placeholder :: "string \<Rightarrow> string" where
  "placeholder k = ''{'' @ k @ ''}''"

definition partial_format ::
  "renderer \<Rightarrow> (string list \<Rightarrow> string list) \<Rightarrow> string \<Rightarrow> (string \<rightharpoonup> string) \<Rightarrow> exn + string" where
  "partial_format rend set_order s kwargs =
     (case formatter_parser s of
        Inl e \<Rightarrow> Inl e
      | Inr items \<Rightarrow>
          (let place_holders = set_order (remdups (field_names items));
               replacements = map_of (map (\<lambda>k. (k, case kwargs k of None \<Rightarrow> placeholder k
                                                    | Some v \<Rightarrow> v)) place_holders);
               s = fold (\<lambda>k s. str_replace s (placeholder k) (temp_prefix @ k)) place_holders s;
               s = str_replace (str_replace s ''{'' ''{{'') ''}'' ''}}'';
               s = fold (\<lambda>k s. str_replace s (temp_prefix @ k) (placeholder k)) place_holders s
           in str_format rend replacements s))"


text \<open>
  Parsing the placeholder syntax of a string:
  \<^verbatim>\<open>[x[1] for x in Formatter().parse(s) if x[1] is not None]\<close>.
\<close>

definition placeholder_names :: "string \<Rightarrow> exn + string list" where
  "placeholder_names s =
     (case formatter_parser s of Inl e \<Rightarrow> Inl e | Inr items \<Rightarrow> Inr (field_names items))"











section \<open>Properties of the handlers\<close>

subsection \<open>Running the effects\<close>

lemma bindE:
  assumes "bind m f s = (r, t)"
  obtains (fail) e where "m s = (Inl e, t)" "r = Inl e"
        | (ok) a s' where "m s = (Inr a, s')" "f a s' = (r, t)"
  using assms by (auto simp: bind_def split: prod.splits sum.splits)

lemma performE:
  assumes "perform ev call (w, tr) = (r, (w', tr'))"
  obtains "call w = (r, w')" "tr' = tr @ [ev r]"
  using assms by (auto simp: perform_def split: prod.splits)

lemma liftE:
  assumes "lift x s = (r, t)"
  obtains "x = r" "t = s"
  using assms by (auto simp: lift_def)

lemma retE:
  assumes "ret x s = (r, t)"
  obtains "r = Inr x" "t = s"
  using assms by (auto simp: ret_def)

lemma note_eventE:
  assumes "note_event e (w, tr) = (r, (w', tr'))"
  obtains "r = Inr ()" "w' = w" "tr' = tr @ [e]"
  using assms by (auto simp: note_event_def)

lemma try_exceptE:
  assumes "try_except m h s = (r, t)"
  obtains (ok) a where "m s = (Inr a, t)" "r = Inr a"
        | (caught) e s' where "m s = (Inl e, s')" "is_Exception e" "h e s' = (r, t)"
        | (passed) e where "m s = (Inl e, t)" "\<not> is_Exception e" "r = Inl e"
  using assms by (auto simp: try_except_def split: prod.splits sum.splits if_splits)

lemma send_messageE:
  assumes "send_message E m th (w, tr) = (r, (w', tr'))"
  obtains (fmt) e where "mrkdwn E m = Inl e" "r = Inl e" "tr' = tr" "w' = w"
   | (sent) m' where "mrkdwn E m = Inr m'"
        "tr' = tr @ [Say m' (to_thread th) r]"
        "say E m' (to_thread th) w = (r, w')"
  using assms unfolding send_message_def to_thread_def
  by (auto elim!: bindE liftE performE split: if_splits)

lemma resolve_initial_messageE:
  assumes "resolve_initial_message E body (w, tr) = (r, (w', tr'))"
  obtains
    (no_message) "body_message body = None" "r = Inl (KeyError ''message'')" "w' = w"
      "tr' = tr @ [LogInfo ''Received message'']"
  | (no_channel) "body_channel body = None" "r = Inl (KeyError ''channel'')" "w' = w"
      "tr' = tr @ [LogInfo ''Received message'']"
  | (failed) m c e where "body_message body = Some m" "body_channel body = Some c"
      "get_initial_message E m (dict_get c ''id'') w = (Inl e, w')" "r = Inl e"
      "tr' = tr @ [LogInfo ''Received message'', GetInitialMessage m (dict_get c ''id'') (Inl e)]"
  | (resolved) m c im where "body_message body = Some m" "body_channel body = Some c"
      "get_initial_message E m (dict_get c ''id'') w = (Inr im, w')"
      "r = Inr (im, dict_get c ''id'')"
      "tr' = tr @ [LogInfo ''Received message'', GetInitialMessage m (dict_get c ''id'') (Inr im),
                   LogInfo ''Initial message'']"
  using assms unfolding resolve_initial_message_def item_opt_def
  by (auto elim!: bindE liftE performE note_eventE retE split: option.splits)

lemma docsbot_handler_cases:
  assumes "docsbot_handler E body (w, tr) = (r, (w', tr'))"
  shows "(\<exists>e. ack E w = (Inl e, w') \<and> r = Inl e \<and> tr' = tr @ [Ack (Inl e)])
    \<or> (\<exists>w1 e. ack E w = (Inr (), w1) \<and> r = Inl e
          \<and> resolve_initial_message E body (w1, tr @ [Ack (Inr ())]) = (Inl e, (w', tr')))
    \<or> (\<exists>w1 im ch w2 t2. ack E w = (Inr (), w1)
          \<and> resolve_initial_message E body (w1, tr @ [Ack (Inr ())]) = (Inr (im, ch), (w2, t2))
          \<and> docsbot_steps E im ch (w2, t2) = (Inr (), (w', tr')) \<and> r = Inr ())
    \<or> (\<exists>w1 im ch w2 t2 e tr2. ack E w = (Inr (), w1)
          \<and> resolve_initial_message E body (w1, tr @ [Ack (Inr ())]) = (Inr (im, ch), (w2, t2))
          \<and> docsbot_steps E im ch (w2, t2) = (Inl e, (w', tr2)) \<and> is_Exception e
          \<and> r = Inr () \<and> tr' = tr2 @ [LogError e])
    \<or> (\<exists>w1 im ch w2 t2 e. ack E w = (Inr (), w1)
          \<and> resolve_initial_message E body (w1, tr @ [Ack (Inr ())]) = (Inr (im, ch), (w2, t2))
          \<and> docsbot_steps E im ch (w2, t2) = (Inl e, (w', tr')) \<and> \<not> is_Exception e \<and> r = Inl e)"
  using assms unfolding docsbot_handler_def
  by (auto elim!: bindE performE try_exceptE note_eventE split: prod.splits)

lemma docsbot_steps_threads:
  assumes "docsbot_steps E im ch (w, tr) = (r, (w', tr'))"
  shows "\<exists>h evs. tr' = tr @ GetChatHistory (APPLICATION E) (thread_id_of im) h # evs
           \<and> (\<forall>e \<in> set evs. \<forall>t. thread_used e = Some t \<longrightarrow> t = thread_id_of im)
           \<and> (\<forall>e \<in> set evs. \<forall>m c x. e \<noteq> GetInitialMessage m c x)"
  using assms unfolding docsbot_steps_def Let_def
  by (auto elim!: bindE performE liftE retE send_messageE simp: to_thread_def split: if_splits)

lemma docsbot_handler_resolved:
  assumes "docsbot_handler E body (w, []) = (r, (w', tr))"
    and "GetInitialMessage m c (Inr im) \<in> set tr"
  shows "\<exists>w2 r2 tr2.
      docsbot_steps E im c
        (w2, [Ack (Inr ()), LogInfo ''Received message'', GetInitialMessage m c (Inr im),
              LogInfo ''Initial message'']) = (r2, (w', tr2))
      \<and> ((\<exists>e. r2 = Inl e \<and> is_Exception e \<and> r = Inr () \<and> tr = tr2 @ [LogError e])
         \<or> ((\<forall>e. r2 = Inl e \<longrightarrow> \<not> is_Exception e) \<and> r = r2 \<and> tr = tr2))"
proof -
  from docsbot_handler_cases[OF assms(1)] show ?thesis
  proof (elim disjE exE conjE)
    fix e assume "tr = [] @ [Ack (Inl e)]"
    with assms(2) show ?thesis by simp
  next
    fix w1 e
    assume "resolve_initial_message E body (w1, [] @ [Ack (Inr ())]) = (Inl e, (w', tr))"
    with assms(2) show ?thesis by (auto elim!: resolve_initial_messageE)
  next
    fix w1 im' ch w2 t2
    assume res: "resolve_initial_message E body (w1, [] @ [Ack (Inr ())]) = (Inr (im', ch), (w2, t2))"
      and st: "docsbot_steps E im' ch (w2, t2) = (Inr (), (w', tr))" and r: "r = Inr ()"
    from docsbot_steps_threads[OF st] res assms(2) have "im' = im \<and> ch = c \<and>
        t2 = [Ack (Inr ()), LogInfo ''Received message'', GetInitialMessage m c (Inr im),
              LogInfo ''Initial message'']"
      by (auto elim!: resolve_initial_messageE; blast)
    with st r show ?thesis by auto
  next
    fix w1 im' ch w2 t2 e tr2
    assume res: "resolve_initial_message E body (w1, [] @ [Ack (Inr ())]) = (Inr (im', ch), (w2, t2))"
      and st: "docsbot_steps E im' ch (w2, t2) = (Inl e, (w', tr2))" and r: "r = Inr ()"
      and e: "is_Exception e" and tr: "tr = tr2 @ [LogError e]"
    from docsbot_steps_threads[OF st] res assms(2) tr have "im' = im \<and> ch = c \<and>
        t2 = [Ack (Inr ()), LogInfo ''Received message'', GetInitialMessage m c (Inr im),
              LogInfo ''Initial message'']"
      by (auto elim!: resolve_initial_messageE; blast)
    with st r e tr show ?thesis by auto
  next
    fix w1 im' ch w2 t2 e
    assume res: "resolve_initial_message E body (w1, [] @ [Ack (Inr ())]) = (Inr (im', ch), (w2, t2))"
      and st: "docsbot_steps E im' ch (w2, t2) = (Inl e, (w', tr))" and r: "r = Inl e"
      and e: "\<not> is_Exception e"
    from docsbot_steps_threads[OF st] res assms(2) have "im' = im \<and> ch = c \<and>
        t2 = [Ack (Inr ()), LogInfo ''Received message'', GetInitialMessage m c (Inr im),
              LogInfo ''Initial message'']"
      by (auto elim!: resolve_initial_messageE; blast)
    with st r e show ?thesis by auto
  qed
qed

lemma docsbot_handler_threads:
  assumes "docsbot_handler E body (w, []) = (r, (w', tr))"
    and "GetInitialMessage m c (Inr im) \<in> set tr"
  shows "(\<exists>h. GetChatHistory (APPLICATION E) (thread_id_of im) h \<in> set tr)
       \<and> (\<forall>e \<in> set tr. \<forall>t. thread_used e = Some t \<longrightarrow> t = thread_id_of im)"
proof -
  from docsbot_handler_resolved[OF assms] obtain w2 r2 tr2 where
    st: "docsbot_steps E im c
        (w2, [Ack (Inr ()), LogInfo ''Received message'', GetInitialMessage m c (Inr im),
              LogInfo ''Initial message'']) = (r2, (w', tr2))"
    and tr: "(\<exists>e. tr = tr2 @ [LogError e]) \<or> tr = tr2" by blast
  from docsbot_steps_threads[OF st] obtain h evs where
    "tr2 = [Ack (Inr ()), LogInfo ''Received message'', GetInitialMessage m c (Inr im),
              LogInfo ''Initial message''] @ GetChatHistory (APPLICATION E) (thread_id_of im) h # evs"
    "\<forall>e \<in> set evs. \<forall>t. thread_used e = Some t \<longrightarrow> t = thread_id_of im" by blast
  with tr show ?thesis by auto
qed

lemma adcopy_handler_threads:
  assumes "adcopy_handler E body (w, []) = (r, (w', tr))"
    and "GetInitialMessage m c (Inr im) \<in> set tr"
  shows "(\<exists>h. SayBlocks (get_adcopy_blocks E) (thread_id_of im) h \<in> set tr)
       \<and> (\<forall>e \<in> set tr. \<forall>t. thread_used e = Some t \<longrightarrow> t = thread_id_of im)"
  using assms unfolding adcopy_handler_def Let_def
  by (auto elim!: bindE performE retE resolve_initial_messageE split: prod.splits)

lemma handle_adcopy_action_threads:
  assumes "handle_adcopy_action E body action persona (w, []) = (r, (w', tr))"
    and "GetInitialMessage m c (Inr im) \<in> set tr"
  shows "(\<forall>q ads. GenerateAds q action persona (Inr ads) \<in> set tr \<longrightarrow>
            (\<exists>h. SayCopies (ad_copies ads) (thread_id_of im) h \<in> set tr))
       \<and> (\<forall>e \<in> set tr. \<forall>t. thread_used e = Some t \<longrightarrow> t = thread_id_of im)"
  using assms unfolding handle_adcopy_action_def Let_def
  by (auto elim!: bindE performE retE resolve_initial_messageE split: prod.splits)

lemma docsbot_steps_success:
  assumes "docsbot_steps E im ch (w, tr) = (Inr u, (w', tr'))"
  shows "\<exists>h r resp answer sent d kw pre.
     tr' = tr @ [GetChatHistory (APPLICATION E) (thread_id_of im) (Inr h)] @ pre @
       [Query (dict_get im ''text'') h (bot_language E) (APPLICATION E) (Inr r),
        Say answer (to_thread (thread_id_of im)) (Inr sent),
        ReactionsAdd ch (dict_get (resp_data sent) ''ts'') ''thumbsup'' (Inr ()),
        ReactionsAdd ch (dict_get (resp_data sent) ''ts'') ''thumbsdown'' (Inr ()),
        CreateQuestionAnswer (thread_id_of im) (dict_get (resp_data sent) ''ts'') (bot_language E) kw (Inr ())]
     \<and> format_response E r (OUTRO_MESSAGE E) = Inr resp \<and> mrkdwn E resp = Inr answer
     \<and> model_dump E r = Inr d \<and> merge_kwargs d = Inr kw
     \<and> (if h = [] then \<exists>i intro s0. intro_format E (dict_get im ''user'') = Inr i \<and> mrkdwn E i = Inr intro
            \<and> pre = [Say intro (to_thread (thread_id_of im)) (Inr s0)]
         else pre = [])"
  using assms unfolding docsbot_steps_def Let_def
  by (auto elim!: bindE performE liftE retE send_messageE split: if_splits)

lemma merge_kwargs_Inr: "merge_kwargs d = Inr kw \<Longrightarrow> kw = d"
  by (auto simp: merge_kwargs_def split: if_splits)

lemma docsbot_steps_sends:
  assumes "docsbot_steps E im ch (w, tr) = (r, (w', tr'))"
  shows "\<exists>h evs. tr' = tr @ GetChatHistory (APPLICATION E) (thread_id_of im) h # evs
    \<and> (\<forall>e \<in> set evs. \<forall>a t x. e \<noteq> GetChatHistory a t x)
    \<and> (\<forall>hist. h = Inr hist \<longrightarrow> hist \<noteq> [] \<longrightarrow> answer_tail E im hist (filter is_send_or_query evs))
    \<and> (\<forall>i intro. h = Inr [] \<longrightarrow> intro_format E (dict_get im ''user'') = Inr i \<longrightarrow>
          mrkdwn E i = Inr intro \<longrightarrow>
          (\<exists>s0 rest. filter is_send_or_query evs = Say intro (to_thread (thread_id_of im)) s0 # rest
             \<and> answer_tail E im [] rest))"
  using assms unfolding docsbot_steps_def Let_def
  by (auto elim!: bindE performE liftE retE send_messageE simp: answer_tail_def split: if_splits)

subsection \<open>A run on the sample environment\<close>

lemma demo_docsbot_trace:
  "docsbot_handler demo_env (demo_body im) (0, []) =
   (Inr (), (2,
     [Ack (Inr ()), LogInfo ''Received message'',
      GetInitialMessage im (PStr ''C1'') (Inr im),
      LogInfo ''Initial message'',
      GetChatHistory ''Slack_EN'' (thread_id_of im) (Inr []),
      Say ''Hi'' (to_thread (thread_id_of im)) (Inr \<lparr>resp_data = [(''ts'', PInt 0)], resp_messages = None\<rparr>),
      Query (dict_get im ''text'') [] ''en'' ''Slack_EN'' (Inr [(''answer'', PStr ''Call wandb.log'')]),
      Say ''Answer.'' (to_thread (thread_id_of im)) (Inr \<lparr>resp_data = [(''ts'', PInt 1)], resp_messages = None\<rparr>),
      ReactionsAdd (PStr ''C1'') (PInt 1) ''thumbsup'' (Inr ()),
      ReactionsAdd (PStr ''C1'') (PInt 1) ''thumbsdown'' (Inr ()),
      CreateQuestionAnswer (thread_id_of im) (PInt 1) ''en'' [(''answer'', PStr ''Call wandb.log'')] (Inr ())]))"
  by (simp add: ret_def lift_def bind_def perform_def note_event_def try_except_def item_opt_def
      send_message_def merge_kwargs_def explicit_keywords_def resolve_initial_message_def
      docsbot_steps_def docsbot_handler_def Let_def demo_env_def demo_body_def to_thread_def
      dict_get_def[of "[(''id'', PStr ''C1'')]"] dict_get_def[of "[(''ts'', PInt 1)]"])

lemma docsbot_handler_completed:
  assumes run: "docsbot_handler E body (w, []) = (r, (w', tr))"
    and im: "GetInitialMessage m c (Inr im) \<in> set tr"
    and ok: "r = Inr ()" "\<forall>e. LogError e \<notin> set tr"
  shows "(\<exists>a s. Say a (to_thread (thread_id_of im)) s \<in> set tr)
       \<and> (\<exists>q k x. CreateQuestionAnswer (thread_id_of im) q (bot_language E) k x \<in> set tr)"
proof -
  from docsbot_handler_resolved[OF run im] ok obtain w2 where
    st: "docsbot_steps E im c
        (w2, [Ack (Inr ()), LogInfo ''Received message'', GetInitialMessage m c (Inr im),
              LogInfo ''Initial message'']) = (Inr (), (w', tr))"
    by auto
  from docsbot_steps_success[OF st] show ?thesis by (auto; blast)
qed

lemma demo_adcopy_trace:
  "adcopy_handler demo_env (demo_body im) (0, []) =
   (Inr (), (1,
     [Ack (Inr ()), LogInfo ''Received message'',
      GetInitialMessage im (PStr ''C1'') (Inr im),
      LogInfo ''Initial message'',
      SayBlocks [] (thread_id_of im) (Inr \<lparr>resp_data = [(''ts'', PInt 0)], resp_messages = None\<rparr>)]))"
  by (simp add: ret_def lift_def bind_def perform_def note_event_def item_opt_def
      resolve_initial_message_def adcopy_handler_def Let_def demo_env_def demo_body_def
      dict_get_def[of "[(''id'', PStr ''C1'')]"])

lemma demo_adcopy_action_trace:
  "handle_adcopy_action demo_env (demo_body im) action persona (0, []) =
   (Inr (), (1,
     [LogInfo ''Received message'',
      GetInitialMessage im (PStr ''C1'') (Inr im),
      LogInfo ''Initial message'',
      GenerateAds (dict_get im ''text'') action persona (Inr \<lparr>ad_copies = ''Try it''\<rparr>),
      SayCopies ''Try it'' (thread_id_of im)
        (Inr \<lparr>resp_data = [(''ts'', PInt 0)], resp_messages = None\<rparr>)]))"
  by (simp add: ret_def lift_def bind_def perform_def note_event_def item_opt_def
      resolve_initial_message_def handle_adcopy_action_def Let_def demo_env_def demo_body_def
      dict_get_def[of "[(''id'', PStr ''C1'')]"])

lemmas demo_run_defs =
  ret_def lift_def bind_def perform_def note_event_def try_except_def item_opt_def dict_item_def
  send_message_def merge_kwargs_def explicit_keywords_def resolve_initial_message_def
  docsbot_steps_def docsbot_handler_def handle_adcopy_action_def handle_reaction_added_def
  Let_def demo_env_def demo_body_def to_thread_def

subsection \<open>The rating of a reaction\<close>

text \<open>
  Claim C5. \<^verbatim>\<open>parse_reaction\<close> is total on strings: it returns 1 for the string \<^verbatim>\<open>+1\<close>, -1 for
  the string \<^verbatim>\<open>-1\<close> and 0 for every other string, among them the empty string, \<^verbatim>\<open>+1\<close>
  followed by a space and the bytes of an emoji; its result is always one of -1, 0 and 1. The
  function has no branch that raises.
\<close>

theorem parse_reaction_total:
  "parse_reaction (PStr ''+1'') = 1 \<and> parse_reaction (PStr ''-1'') = - 1
   \<and> (\<forall>s. s \<noteq> ''+1'' \<and> s \<noteq> ''-1'' \<longrightarrow> parse_reaction (PStr s) = 0)
   \<and> parse_reaction (PStr '''') = 0 \<and> parse_reaction (PStr ''+1 '') = 0
   \<and> parse_reaction (PStr [CHR 0xF0, CHR 0x9F, CHR 0x91, CHR 0x8D]) = 0
   \<and> (\<forall>v. parse_reaction v \<in> {- 1, 0, 1})"
  by (simp add: parse_reaction_def)

theorem parse_reaction_total_witness:
  "''heart'' \<noteq> ''+1'' \<and> ''heart'' \<noteq> ''-1'' \<and> parse_reaction (PStr ''heart'') = 0"
  using parse_reaction_total by simp

subsection \<open>The thread id\<close>

lemma thread_id_of_truthy:
  "map_of im ''thread_ts'' = Some v \<Longrightarrow> truthy v \<Longrightarrow> thread_id_of im = v"
  by (simp add: thread_id_of_def py_or_def dict_get_def)

lemma thread_id_of_absent:
  "map_of im ''thread_ts'' = None \<Longrightarrow> thread_id_of im = dict_get im ''ts''"
  by (simp add: thread_id_of_def py_or_def dict_get_def)

lemma thread_id_of_falsy:
  "map_of im ''thread_ts'' = Some v \<Longrightarrow> \<not> truthy v \<Longrightarrow> thread_id_of im = dict_get im ''ts''"
  by (simp add: thread_id_of_def py_or_def dict_get_def)

text \<open>
  Claim C6. Take a run of \<^verbatim>\<open>docsbot_handler\<close> or of \<^verbatim>\<open>handle_adcopy_action\<close> whose
  originating message is \<open>im\<close>. If \<^verbatim>\<open>thread_ts\<close> is set (to a timestamp, a truthy value), that
  value \<open>t\<close> is the thread id; if the message has only \<^verbatim>\<open>ts\<close>, the value \<open>t\<close> of \<^verbatim>\<open>ts\<close> is.
  The handlers use it: \<^verbatim>\<open>docsbot_handler\<close> fetches the chat history of thread \<open>t\<close>, gives
  \<open>t\<close> to every call that takes a thread and, when no call raises, sends the answer to thread
  \<open>t\<close> and persists the record under \<open>t\<close>; \<^verbatim>\<open>handle_adcopy_action\<close> gives \<open>t\<close> to
  every call that takes a thread and sends the generated copy to thread \<open>t\<close>.
\<close>

theorem thread_id_resolution:
  assumes im: "GetInitialMessage m c (Inr im) \<in> set tr"
    and t: "(map_of im ''thread_ts'' = Some t \<and> truthy t)
          \<or> (map_of im ''thread_ts'' = None \<and> map_of im ''ts'' = Some t)"
  shows "thread_id_of im = t
    \<and> (docsbot_handler E body (w, []) = (r, (w', tr)) \<longrightarrow>
         (\<exists>h. GetChatHistory (APPLICATION E) t h \<in> set tr)
         \<and> (\<forall>e \<in> set tr. \<forall>t'. thread_used e = Some t' \<longrightarrow> t' = t)
         \<and> (r = Inr () \<and> (\<forall>e. LogError e \<notin> set tr) \<longrightarrow>
              (\<exists>a s. Say a (to_thread t) s \<in> set tr)
              \<and> (\<exists>q k x. CreateQuestionAnswer t q (bot_language E) k x \<in> set tr)))
    \<and> (handle_adcopy_action E body action persona (w, []) = (r, (w', tr)) \<longrightarrow>
         (\<forall>q ads. GenerateAds q action persona (Inr ads) \<in> set tr \<longrightarrow>
            (\<exists>h. SayCopies (ad_copies ads) t h \<in> set tr))
         \<and> (\<forall>e \<in> set tr. \<forall>t'. thread_used e = Some t' \<longrightarrow> t' = t))"
proof -
  have tid: "thread_id_of im = t"
    using t thread_id_of_truthy[of im t] thread_id_of_absent[of im]
    by (auto simp: dict_get_def)
  show ?thesis
  proof (intro conjI impI)
    show "thread_id_of im = t" by (rule tid)
  next
    assume run: "docsbot_handler E body (w, []) = (r, (w', tr))"
    from docsbot_handler_threads[OF run im] tid
    show "\<exists>h. GetChatHistory (APPLICATION E) t h \<in> set tr" by simp
  next
    assume run: "docsbot_handler E body (w, []) = (r, (w', tr))"
    from docsbot_handler_threads[OF run im] tid
    show "\<forall>e \<in> set tr. \<forall>t'. thread_used e = Some t' \<longrightarrow> t' = t" by simp
  next
    assume run: "docsbot_handler E body (w, []) = (r, (w', tr))"
      and ok: "r = Inr () \<and> (\<forall>e. LogError e \<notin> set tr)"
    from docsbot_handler_completed[OF run im] ok tid
    show "\<exists>a s. Say a (to_thread t) s \<in> set tr" by simp
  next
    assume run: "docsbot_handler E body (w, []) = (r, (w', tr))"
      and ok: "r = Inr () \<and> (\<forall>e. LogError e \<notin> set tr)"
    from docsbot_handler_completed[OF run im] ok tid
    show "\<exists>q k x. CreateQuestionAnswer t q (bot_language E) k x \<in> set tr" by simp
  next
    assume run: "handle_adcopy_action E body action persona (w, []) = (r, (w', tr))"
    from handle_adcopy_action_threads[OF run im] tid
    show "\<forall>q ads. GenerateAds q action persona (Inr ads) \<in> set tr \<longrightarrow>
            (\<exists>h. SayCopies (ad_copies ads) t h \<in> set tr)" by simp
  next
    assume run: "handle_adcopy_action E body action persona (w, []) = (r, (w', tr))"
    from handle_adcopy_action_threads[OF run im] tid
    show "\<forall>e \<in> set tr. \<forall>t'. thread_used e = Some t' \<longrightarrow> t' = t" by simp
  qed
qed

theorem thread_id_resolution_witness:
  "GetInitialMessage threaded_message (PStr ''C1'') (Inr threaded_message)
     \<in> set (snd (snd (docsbot_handler demo_env (demo_body threaded_message) (0, []))))
   \<and> map_of threaded_message ''thread_ts'' = Some (PStr ''T1'') \<and> truthy (PStr ''T1'')
   \<and> thread_id_of threaded_message = PStr ''T1''
   \<and> GetChatHistory ''Slack_EN'' (PStr ''T1'') (Inr [])
     \<in> set (snd (snd (docsbot_handler demo_env (demo_body threaded_message) (0, []))))
   \<and> CreateQuestionAnswer (PStr ''T1'') (PInt 1) ''en'' [(''answer'', PStr ''Call wandb.log'')] (Inr ())
     \<in> set (snd (snd (docsbot_handler demo_env (demo_body threaded_message) (0, []))))
   \<and> SayCopies ''Try it'' (PStr ''T1'') (Inr \<lparr>resp_data = [(''ts'', PInt 0)], resp_messages = None\<rparr>)
     \<in> set (snd (snd (handle_adcopy_action demo_env (demo_body threaded_message)
                        ''awareness'' ''executive'' (0, []))))
   \<and> map_of scenario_message ''thread_ts'' = None
   \<and> map_of scenario_message ''ts'' = Some (PStr ''T2'')
   \<and> thread_id_of scenario_message = PStr ''T2''
   \<and> GetChatHistory ''Slack_EN'' (PStr ''T2'') (Inr [])
     \<in> set (snd (snd (docsbot_handler demo_env (demo_body scenario_message) (0, []))))"
proof -
  have mem: "GetInitialMessage threaded_message (PStr ''C1'') (Inr threaded_message)
     \<in> set (snd (snd (docsbot_handler demo_env (demo_body threaded_message) (0, []))))"
    by (simp add: demo_docsbot_trace)
  have mem2: "GetInitialMessage scenario_message (PStr ''C1'') (Inr scenario_message)
     \<in> set (snd (snd (docsbot_handler demo_env (demo_body scenario_message) (0, []))))"
    by (simp add: demo_docsbot_trace)
  have ts: "map_of threaded_message ''thread_ts'' = Some (PStr ''T1'')" "truthy (PStr ''T1'')"
    by (simp_all add: threaded_message_def)
  have ts2: "map_of scenario_message ''thread_ts'' = None"
    "map_of scenario_message ''ts'' = Some (PStr ''T2'')"
    by (simp_all add: scenario_message_def)
  have t1: "thread_id_of threaded_message = PStr ''T1''"
    by (rule thread_id_resolution[OF mem disjI1[OF conjI[OF ts]], THEN conjunct1])
  have t2: "thread_id_of scenario_message = PStr ''T2''"
    by (rule thread_id_resolution[OF mem2 disjI2[OF conjI[OF ts2]], THEN conjunct1])
  show ?thesis
    using mem ts ts2 t1 t2
    by (simp add: demo_docsbot_trace demo_adcopy_action_trace)
qed

text \<open>
  Claim C10. A \<^verbatim>\<open>thread_ts\<close> that is present but falsy is treated like an absent one: the
  thread id is the value of \<^verbatim>\<open>ts\<close>, and the three handlers use that value.
  \<^verbatim>\<open>docsbot_handler\<close> fetches the chat history of that thread, gives it to every call that
  takes a thread and, when no call raises, sends the answer to it and persists the record
  under it; \<^verbatim>\<open>adcopy_handler\<close> sends its blocks to it; \<^verbatim>\<open>handle_adcopy_action\<close> sends the
  generated copy to it.
\<close>

theorem falsy_thread_ts_uses_ts:
  assumes im: "GetInitialMessage m c (Inr im) \<in> set tr"
    and falsy: "map_of im ''thread_ts'' = Some v" "\<not> truthy v"
  shows "thread_id_of im = dict_get im ''ts''
    \<and> (docsbot_handler E body (w, []) = (r, (w', tr)) \<longrightarrow>
         (\<exists>h. GetChatHistory (APPLICATION E) (dict_get im ''ts'') h \<in> set tr)
         \<and> (\<forall>e \<in> set tr. \<forall>t. thread_used e = Some t \<longrightarrow> t = dict_get im ''ts'')
         \<and> (r = Inr () \<and> (\<forall>e. LogError e \<notin> set tr) \<longrightarrow>
              (\<exists>a s. Say a (to_thread (dict_get im ''ts'')) s \<in> set tr)
              \<and> (\<exists>q k x. CreateQuestionAnswer (dict_get im ''ts'') q (bot_language E) k x \<in> set tr)))
    \<and> (adcopy_handler E body (w, []) = (r, (w', tr)) \<longrightarrow>
         (\<exists>h. SayBlocks (get_adcopy_blocks E) (dict_get im ''ts'') h \<in> set tr)
         \<and> (\<forall>e \<in> set tr. \<forall>t. thread_used e = Some t \<longrightarrow> t = dict_get im ''ts''))
    \<and> (handle_adcopy_action E body action persona (w, []) = (r, (w', tr)) \<longrightarrow>
         (\<forall>q ads. GenerateAds q action persona (Inr ads) \<in> set tr \<longrightarrow>
            (\<exists>h. SayCopies (ad_copies ads) (dict_get im ''ts'') h \<in> set tr))
         \<and> (\<forall>e \<in> set tr. \<forall>t. thread_used e = Some t \<longrightarrow> t = dict_get im ''ts''))"
proof -
  have tid: "thread_id_of im = dict_get im ''ts''"
    using falsy by (rule thread_id_of_falsy)
  show ?thesis
  proof (intro conjI impI)
    show "thread_id_of im = dict_get im ''ts''" by (rule tid)
  next
    assume run: "docsbot_handler E body (w, []) = (r, (w', tr))"
    from docsbot_handler_threads[OF run im] tid
    show "\<exists>h. GetChatHistory (APPLICATION E) (dict_get im ''ts'') h \<in> set tr" by simp
  next
    assume run: "docsbot_handler E body (w, []) = (r, (w', tr))"
    from docsbot_handler_threads[OF run im] tid
    show "\<forall>e \<in> set tr. \<forall>t. thread_used e = Some t \<longrightarrow> t = dict_get im ''ts''" by simp
  next
    assume run: "docsbot_handler E body (w, []) = (r, (w', tr))"
      and ok: "r = Inr () \<and> (\<forall>e. LogError e \<notin> set tr)"
    from docsbot_handler_completed[OF run im] ok tid
    show "\<exists>a s. Say a (to_thread (dict_get im ''ts'')) s \<in> set tr" by simp
  next
    assume run: "docsbot_handler E body (w, []) = (r, (w', tr))"
      and ok: "r = Inr () \<and> (\<forall>e. LogError e \<notin> set tr)"
    from docsbot_handler_completed[OF run im] ok tid
    show "\<exists>q k x. CreateQuestionAnswer (dict_get im ''ts'') q (bot_language E) k x \<in> set tr"
      by simp
  next
    assume run: "adcopy_handler E body (w, []) = (r, (w', tr))"
    from adcopy_handler_threads[OF run im] tid
    show "\<exists>h. SayBlocks (get_adcopy_blocks E) (dict_get im ''ts'') h \<in> set tr" by simp
  next
    assume run: "adcopy_handler E body (w, []) = (r, (w', tr))"
    from adcopy_handler_threads[OF run im] tid
    show "\<forall>e \<in> set tr. \<forall>t. thread_used e = Some t \<longrightarrow> t = dict_get im ''ts''" by simp
  next
    assume run: "handle_adcopy_action E body action persona (w, []) = (r, (w', tr))"
    from handle_adcopy_action_threads[OF run im] tid
    show "\<forall>q ads. GenerateAds q action persona (Inr ads) \<in> set tr \<longrightarrow>
            (\<exists>h. SayCopies (ad_copies ads) (dict_get im ''ts'') h \<in> set tr)" by simp
  next
    assume run: "handle_adcopy_action E body action persona (w, []) = (r, (w', tr))"
    from handle_adcopy_action_threads[OF run im] tid
    show "\<forall>e \<in> set tr. \<forall>t. thread_used e = Some t \<longrightarrow> t = dict_get im ''ts''" by simp
  qed
qed

theorem falsy_thread_ts_uses_ts_witness:
  "GetInitialMessage falsy_thread_message (PStr ''C1'') (Inr falsy_thread_message)
     \<in> set (snd (snd (docsbot_handler demo_env (demo_body falsy_thread_message) (0, []))))
   \<and> map_of falsy_thread_message ''thread_ts'' = Some (PStr '''') \<and> \<not> truthy (PStr '''')
   \<and> dict_get falsy_thread_message ''ts'' = PStr ''T2''
   \<and> thread_id_of falsy_thread_message = PStr ''T2''
   \<and> GetChatHistory ''Slack_EN'' (PStr ''T2'') (Inr [])
     \<in> set (snd (snd (docsbot_handler demo_env (demo_body falsy_thread_message) (0, []))))
   \<and> Say ''Answer.'' (Some (PStr ''T2'')) (Inr \<lparr>resp_data = [(''ts'', PInt 1)], resp_messages = None\<rparr>)
     \<in> set (snd (snd (docsbot_handler demo_env (demo_body falsy_thread_message) (0, []))))
   \<and> CreateQuestionAnswer (PStr ''T2'') (PInt 1) ''en'' [(''answer'', PStr ''Call wandb.log'')] (Inr ())
     \<in> set (snd (snd (docsbot_handler demo_env (demo_body falsy_thread_message) (0, []))))
   \<and> SayBlocks [] (PStr ''T2'') (Inr \<lparr>resp_data = [(''ts'', PInt 0)], resp_messages = None\<rparr>)
     \<in> set (snd (snd (adcopy_handler demo_env (demo_body falsy_thread_message) (0, []))))
   \<and> SayCopies ''Try it'' (PStr ''T2'') (Inr \<lparr>resp_data = [(''ts'', PInt 0)], resp_messages = None\<rparr>)
     \<in> set (snd (snd (handle_adcopy_action demo_env (demo_body falsy_thread_message)
                        ''signups'' ''technical'' (0, []))))"
proof -
  have mem: "GetInitialMessage falsy_thread_message (PStr ''C1'') (Inr falsy_thread_message)
     \<in> set (snd (snd (docsbot_handler demo_env (demo_body falsy_thread_message) (0, []))))"
    by (simp add: demo_docsbot_trace)
  have ts: "map_of falsy_thread_message ''thread_ts'' = Some (PStr '''')" "\<not> truthy (PStr '''')"
    by (simp_all add: falsy_thread_message_def)
  have v: "dict_get falsy_thread_message ''ts'' = PStr ''T2''"
    by (simp add: falsy_thread_message_def dict_get_def)
  have tid: "thread_id_of falsy_thread_message = PStr ''T2''"
    using falsy_thread_ts_uses_ts[OF mem ts, THEN conjunct1] v by simp
  show ?thesis
    using mem ts v tid
    by (simp add: demo_docsbot_trace demo_adcopy_trace demo_adcopy_action_trace to_thread_def)
qed

subsection \<open>Loading or building the index\<close>

text \<open>
  Claim C8. \<^verbatim>\<open>load_index\<close> first calls \<^verbatim>\<open>load_index_from_storage\<close>. When that call returns
  an index, the index is the result and no other call is made: nothing is built and nothing
  is persisted. When that call fails (raises an \<^verbatim>\<open>Exception\<close>), the next call builds a new index
  from the given nodes; when the build and the persist call return, the new index has been
  persisted to the given directory and is the result.
\<close>

theorem load_index_load_or_build:
  assumes "load_index L nodes service_context storage_context persist_dir (w, []) = (r, (w', tr))"
  shows "(\<forall>index w1. load_index_from_storage L storage_context w = (Inr index, w1) \<longrightarrow>
            r = Inr index \<and> w' = w1 \<and> tr = [LoadIndexFromStorage storage_context (Inr index)])
       \<and> (\<forall>e w1. load_index_from_storage L storage_context w = (Inl e, w1) \<and> is_Exception e \<longrightarrow>
            (\<exists>b rest. tr = LoadIndexFromStorage storage_context (Inl e)
                          # BuildIndex nodes service_context storage_context b # rest)
            \<and> (\<forall>index w2 w3. VectorStoreIndex L nodes service_context storage_context w1 = (Inr index, w2)
                  \<and> persist L index persist_dir w2 = (Inr (), w3) \<longrightarrow>
                  r = Inr index \<and> w' = w3
                  \<and> tr = [LoadIndexFromStorage storage_context (Inl e),
                          BuildIndex nodes service_context storage_context (Inr index),
                          Persist index persist_dir (Inr ())]))"
  using assms unfolding load_index_def
  by (auto elim!: try_exceptE bindE performE retE)

theorem load_index_load_or_build_witness:
  "load_index_from_storage demo_index_lib () 0 = (Inl (External ''No index in storage context''), 0)
   \<and> is_Exception (External ''No index in storage context'')
   \<and> VectorStoreIndex demo_index_lib [''doc''] () () 0 = (Inr [''doc''], 1)
   \<and> persist demo_index_lib [''doc''] ''/index'' 1 = (Inr (), 2)
   \<and> load_index demo_index_lib [''doc''] () () ''/index'' (0, []) =
       (Inr [''doc''], (2, [LoadIndexFromStorage () (Inl (External ''No index in storage context'')),
                          BuildIndex [''doc''] () () (Inr [''doc'']),
                          Persist [''doc''] ''/index'' (Inr ())]))"
proof -
  obtain r w' tr where run: "load_index demo_index_lib [''doc''] () () ''/index'' (0, []) = (r, (w', tr))"
    by (metis surj_pair)
  have h: "load_index_from_storage demo_index_lib () 0 = (Inl (External ''No index in storage context''), 0)"
    "VectorStoreIndex demo_index_lib [''doc''] () () 0 = (Inr [''doc''], 1)"
    "persist demo_index_lib [''doc''] ''/index'' 1 = (Inr (), 2)"
    by (simp_all add: demo_index_lib_def)
  from load_index_load_or_build[OF run] h
  have "r = Inr [''doc''] \<and> w' = 2 \<and> tr = [LoadIndexFromStorage () (Inl (External ''No index in storage context'')),
                          BuildIndex [''doc''] () () (Inr [''doc'']),
                          Persist [''doc''] ''/index'' (Inr ())]"
    by simp
  with run h show ?thesis by simp
qed

subsection \<open>The scope of the exception guard\<close>

text \<open>
  Claim C2, as stated, fails: \<^verbatim>\<open>handle_adcopy_action\<close> has no exception guard. When the ad-copy
  endpoint raises, the exception leaves the handler.
\<close>

theorem exception_guard_counterexample:
  "handle_adcopy_action failing_ads_env (demo_body scenario_message) ''awareness'' ''executive'' (0, []) =
     (Inl (External ''ads endpoint unavailable''),
      (0, [LogInfo ''Received message'',
           GetInitialMessage scenario_message (PStr ''C1'') (Inr scenario_message),
           LogInfo ''Initial message'',
           GenerateAds (PStr ''How do I log a metric?'') ''awareness'' ''executive''
             (Inl (External ''ads endpoint unavailable''))]))"
  by (simp add: ret_def lift_def bind_def perform_def note_event_def item_opt_def
      resolve_initial_message_def handle_adcopy_action_def Let_def demo_env_def demo_body_def
      failing_ads_env_def dict_get_def scenario_message_def)

text \<open>
  Claim C2, amended. Only \<^verbatim>\<open>docsbot_handler\<close> has a broad exception guard, and the guard
  encloses the steps from the history fetch to the persist call: an \<^verbatim>\<open>Exception\<close> raised by
  one of them is logged and discarded, and the handler returns normally. The acknowledgement
  and the lookup of the originating message come before the guard: an exception raised by
  either of them leaves \<^verbatim>\<open>docsbot_handler\<close>, and an \<^verbatim>\<open>Exception\<close> leaves the handler only when
  one of these two raised it. The ad-copy handler and the reaction handler have no guard: an
  exception of the lookup of the originating message, of the ad-copy endpoint or of the send
  call leaves \<^verbatim>\<open>handle_adcopy_action\<close>, and an exception of the thread lookup or of the
  feedback call leaves \<^verbatim>\<open>handle_reaction_added\<close>.
\<close>

theorem exception_guard_scope:
  "(ack E w = (Inl e, w') \<longrightarrow>
      docsbot_handler E body (w, tr) = (Inl e, (w', tr @ [Ack (Inl e)])))
   \<and> (ack E w = (Inr (), w1)
        \<and> resolve_initial_message E body (w1, tr @ [Ack (Inr ())]) = (Inl e, s2) \<longrightarrow>
      docsbot_handler E body (w, tr) = (Inl e, s2))
   \<and> (ack E w = (Inr (), w1)
        \<and> resolve_initial_message E body (w1, tr @ [Ack (Inr ())]) = (Inr (im, ch), s2)
        \<and> docsbot_steps E im ch s2 = (Inl e, (w3, tr3)) \<and> is_Exception e \<longrightarrow>
      docsbot_handler E body (w, tr) = (Inr (), (w3, tr3 @ [LogError e])))
   \<and> (docsbot_handler E body (w, tr) = (Inl e, (w', tr')) \<and> is_Exception e \<longrightarrow>
      ack E w = (Inl e, w')
      \<or> (\<exists>w1. ack E w = (Inr (), w1)
            \<and> resolve_initial_message E body (w1, tr @ [Ack (Inr ())]) = (Inl e, (w', tr'))))
   \<and> (resolve_initial_message E body (w, tr) = (Inl e, s1) \<longrightarrow>
      handle_adcopy_action E body action persona (w, tr) = (Inl e, s1))
   \<and> (resolve_initial_message E body (w, tr) = (Inr (im, ch), (w1, tr1))
        \<and> generate_ads E (dict_get im ''text'') action persona w1 = (Inl e, w2) \<longrightarrow>
      handle_adcopy_action E body action persona (w, tr) =
        (Inl e, (w2, tr1 @ [GenerateAds (dict_get im ''text'') action persona (Inl e)])))
   \<and> (resolve_initial_message E body (w, tr) = (Inr (im, ch), (w1, tr1))
        \<and> generate_ads E (dict_get im ''text'') action persona w1 = (Inr ads, w2)
        \<and> say_copies E (ad_copies ads) (thread_id_of im) w2 = (Inl e, w3) \<longrightarrow>
      handle_adcopy_action E body action persona (w, tr) =
        (Inl e, (w3, tr1 @ [GenerateAds (dict_get im ''text'') action persona (Inr ads),
                            SayCopies (ad_copies ads) (thread_id_of im) (Inl e)])))
   \<and> (event_item ev = Some item \<and> map_of item ''channel'' = Some chn \<and> map_of item ''ts'' = Some M
        \<and> conversations_replies E chn M w = (Inl e, w') \<longrightarrow>
      handle_reaction_added E ev (w, tr) = (Inl e, (w', tr @ [ConversationsReplies chn M (Inl e)])))
   \<and> (event_item ev = Some item \<and> map_of item ''channel'' = Some chn \<and> map_of item ''ts'' = Some M
        \<and> conversations_replies E chn M w = (Inr conv, w1)
        \<and> resp_messages conv = Some msgs \<and> msgs \<noteq> [] \<and> truthy (dict_get (hd msgs) ''thread_ts'')
        \<and> event_reaction ev = Some reaction \<and> event_ts ev = Some fid
        \<and> create_feedback E fid M (parse_reaction reaction) w1 = (Inl e, w2) \<longrightarrow>
      handle_reaction_added E ev (w, tr) =
        (Inl e, (w2, tr @ [ConversationsReplies chn M (Inr conv),
                           CreateFeedback fid M (parse_reaction reaction) (Inl e)])))"
proof (intro conjI impI)
  assume "ack E w = (Inl e, w')"
  then show "docsbot_handler E body (w, tr) = (Inl e, (w', tr @ [Ack (Inl e)]))"
    by (simp add: docsbot_handler_def bind_def perform_def)
next
  assume "ack E w = (Inr (), w1)
        \<and> resolve_initial_message E body (w1, tr @ [Ack (Inr ())]) = (Inl e, s2)"
  then show "docsbot_handler E body (w, tr) = (Inl e, s2)"
    by (simp add: docsbot_handler_def bind_def perform_def)
next
  assume "ack E w = (Inr (), w1)
        \<and> resolve_initial_message E body (w1, tr @ [Ack (Inr ())]) = (Inr (im, ch), s2)
        \<and> docsbot_steps E im ch s2 = (Inl e, (w3, tr3)) \<and> is_Exception e"
  then show "docsbot_handler E body (w, tr) = (Inr (), (w3, tr3 @ [LogError e]))"
    by (simp add: docsbot_handler_def bind_def perform_def try_except_def note_event_def)
next
  assume "docsbot_handler E body (w, tr) = (Inl e, (w', tr')) \<and> is_Exception e"
  then have run: "docsbot_handler E body (w, tr) = (Inl e, (w', tr'))" and e: "is_Exception e"
    by simp_all
  from docsbot_handler_cases[OF run] e
  show "ack E w = (Inl e, w')
      \<or> (\<exists>w1. ack E w = (Inr (), w1)
            \<and> resolve_initial_message E body (w1, tr @ [Ack (Inr ())]) = (Inl e, (w', tr')))"
    by auto
next
  assume "resolve_initial_message E body (w, tr) = (Inl e, s1)"
  then show "handle_adcopy_action E body action persona (w, tr) = (Inl e, s1)"
    by (simp add: handle_adcopy_action_def bind_def)
next
  assume "resolve_initial_message E body (w, tr) = (Inr (im, ch), (w1, tr1))
        \<and> generate_ads E (dict_get im ''text'') action persona w1 = (Inl e, w2)"
  then show "handle_adcopy_action E body action persona (w, tr) =
        (Inl e, (w2, tr1 @ [GenerateAds (dict_get im ''text'') action persona (Inl e)]))"
    by (simp add: handle_adcopy_action_def bind_def perform_def Let_def)
next
  assume "resolve_initial_message E body (w, tr) = (Inr (im, ch), (w1, tr1))
        \<and> generate_ads E (dict_get im ''text'') action persona w1 = (Inr ads, w2)
        \<and> say_copies E (ad_copies ads) (thread_id_of im) w2 = (Inl e, w3)"
  then show "handle_adcopy_action E body action persona (w, tr) =
        (Inl e, (w3, tr1 @ [GenerateAds (dict_get im ''text'') action persona (Inr ads),
                            SayCopies (ad_copies ads) (thread_id_of im) (Inl e)]))"
    by (simp add: handle_adcopy_action_def bind_def perform_def Let_def)
next
  assume "event_item ev = Some item \<and> map_of item ''channel'' = Some chn \<and> map_of item ''ts'' = Some M
        \<and> conversations_replies E chn M w = (Inl e, w')"
  then show "handle_reaction_added E ev (w, tr) = (Inl e, (w', tr @ [ConversationsReplies chn M (Inl e)]))"
    by (simp add: handle_reaction_added_def bind_def perform_def lift_def item_opt_def dict_item_def)
next
  assume "event_item ev = Some item \<and> map_of item ''channel'' = Some chn \<and> map_of item ''ts'' = Some M
        \<and> conversations_replies E chn M w = (Inr conv, w1)
        \<and> resp_messages conv = Some msgs \<and> msgs \<noteq> [] \<and> truthy (dict_get (hd msgs) ''thread_ts'')
        \<and> event_reaction ev = Some reaction \<and> event_ts ev = Some fid
        \<and> create_feedback E fid M (parse_reaction reaction) w1 = (Inl e, w2)"
  then show "handle_reaction_added E ev (w, tr) =
        (Inl e, (w2, tr @ [ConversationsReplies chn M (Inr conv),
                           CreateFeedback fid M (parse_reaction reaction) (Inl e)]))"
    by (simp add: handle_reaction_added_def bind_def perform_def lift_def item_opt_def
        dict_item_def Let_def)
qed

theorem exception_guard_scope_witness:
  "ack failing_ack_env 0 = (Inl (External ''ack failed''), 0)
   \<and> docsbot_handler failing_ack_env (demo_body scenario_message) (0, []) =
       (Inl (External ''ack failed''), (0, [Ack (Inl (External ''ack failed''))]))
   \<and> resolve_initial_message failing_lookup_env (demo_body scenario_message) (0, [Ack (Inr ())]) =
       (Inl (External ''lookup failed''),
        (0, [Ack (Inr ()), LogInfo ''Received message'',
             GetInitialMessage scenario_message (PStr ''C1'') (Inl (External ''lookup failed''))]))
   \<and> fst (docsbot_handler failing_lookup_env (demo_body scenario_message) (0, [])) =
       Inl (External ''lookup failed'')
   \<and> fst (docsbot_steps failing_query_env scenario_message (PStr ''C1'')
        (0, [Ack (Inr ()), LogInfo ''Received message'',
             GetInitialMessage scenario_message (PStr ''C1'') (Inr scenario_message),
             LogInfo ''Initial message''])) = Inl (External ''api unavailable'')
   \<and> is_Exception (External ''api unavailable'')
   \<and> fst (docsbot_handler failing_query_env (demo_body scenario_message) (0, [])) = Inr ()
   \<and> last (snd (snd (docsbot_handler failing_query_env (demo_body scenario_message) (0, [])))) =
       LogError (External ''api unavailable'')
   \<and> generate_ads failing_ads_env (dict_get scenario_message ''text'') ''signups'' ''technical'' 0 =
       (Inl (External ''ads endpoint unavailable''), 0)
   \<and> fst (handle_adcopy_action failing_ads_env (demo_body scenario_message) ''signups'' ''technical'' (0, []))
       = Inl (External ''ads endpoint unavailable'')
   \<and> conversations_replies failing_replies_env (PStr ''C1'') (PStr ''T3'') 0 =
       (Inl (External ''replies unavailable''), 0)
   \<and> fst (handle_reaction_added failing_replies_env reaction_plus_one (0, [])) =
       Inl (External ''replies unavailable'')"
proof -
  let ?pre = "[Ack (Inr ()), LogInfo ''Received message'',
             GetInitialMessage scenario_message (PStr ''C1'') (Inr scenario_message),
             LogInfo ''Initial message'']"
  let ?body = "demo_body scenario_message"
  have a1: "ack failing_ack_env 0 = (Inl (External ''ack failed''), 0)"
    by (simp add: failing_ack_env_def demo_env_def)
  have c1: "docsbot_handler failing_ack_env ?body (0, []) =
       (Inl (External ''ack failed''), (0, [] @ [Ack (Inl (External ''ack failed''))]))"
    using exception_guard_scope[where E = failing_ack_env and w = 0 and w' = 0
        and e = "External ''ack failed''" and body = ?body and tr = "[]", THEN conjunct1, THEN mp, OF a1]
    by simp
  have a2: "ack failing_lookup_env 0 = (Inr (), 0)"
    by (simp add: failing_lookup_env_def demo_env_def)
  have r2: "resolve_initial_message failing_lookup_env ?body (0, [] @ [Ack (Inr ())]) =
       (Inl (External ''lookup failed''),
        (0, [Ack (Inr ()), LogInfo ''Received message'',
             GetInitialMessage scenario_message (PStr ''C1'') (Inl (External ''lookup failed''))]))"
    by (simp add: failing_lookup_env_def demo_run_defs dict_get_def)
  have c2: "docsbot_handler failing_lookup_env ?body (0, []) =
       (Inl (External ''lookup failed''),
        (0, [Ack (Inr ()), LogInfo ''Received message'',
             GetInitialMessage scenario_message (PStr ''C1'') (Inl (External ''lookup failed''))]))"
    using exception_guard_scope[where E = failing_lookup_env and w = 0 and ?w1.0 = 0
        and e = "External ''lookup failed''" and body = ?body and tr = "[]"
        and ?s2.0 = "(0, [Ack (Inr ()), LogInfo ''Received message'',
             GetInitialMessage scenario_message (PStr ''C1'') (Inl (External ''lookup failed''))])",
        THEN conjunct2, THEN conjunct1, THEN mp, OF conjI[OF a2 r2]]
    by simp
  have a3: "ack failing_query_env 0 = (Inr (), 0)"
    by (simp add: failing_query_env_def demo_env_def)
  have r3: "resolve_initial_message failing_query_env ?body (0, [] @ [Ack (Inr ())]) =
       (Inr (scenario_message, PStr ''C1''), (0, ?pre))"
    by (simp add: failing_query_env_def demo_run_defs dict_get_def)
  obtain w3 tr3 where s3: "docsbot_steps failing_query_env scenario_message (PStr ''C1'') (0, ?pre) =
       (Inl (External ''api unavailable''), (w3, tr3))"
    by (simp add: failing_query_env_def demo_run_defs dict_get_def thread_id_of_def py_or_def
        scenario_message_def)
  have c3: "docsbot_handler failing_query_env ?body (0, []) =
       (Inr (), (w3, tr3 @ [LogError (External ''api unavailable'')]))"
    using exception_guard_scope[where E = failing_query_env and w = 0 and ?w1.0 = 0
        and e = "External ''api unavailable''" and body = ?body and tr = "[]"
        and im = scenario_message and ch = "PStr ''C1''" and ?s2.0 = "(0, ?pre)"
        and ?w3.0 = w3 and ?tr3.0 = tr3, THEN conjunct2, THEN conjunct2, THEN conjunct1, THEN mp] a3 r3 s3
    by simp
  have r4: "resolve_initial_message failing_ads_env ?body (0, []) =
     (Inr (scenario_message, PStr ''C1''),
      (0, [LogInfo ''Received message'',
           GetInitialMessage scenario_message (PStr ''C1'') (Inr scenario_message),
           LogInfo ''Initial message'']))"
    by (simp add: failing_ads_env_def demo_run_defs dict_get_def)
  have g4: "generate_ads failing_ads_env (dict_get scenario_message ''text'') ''signups'' ''technical'' 0 =
       (Inl (External ''ads endpoint unavailable''), 0)"
    by (simp add: failing_ads_env_def demo_env_def)
  have c4: "fst (handle_adcopy_action failing_ads_env ?body ''signups'' ''technical'' (0, []))
       = Inl (External ''ads endpoint unavailable'')"
    using exception_guard_scope[where E = failing_ads_env and body = ?body
      and w = 0 and tr = "[]" and im = scenario_message and ch = "PStr ''C1''" and ?w1.0 = 0
      and action = "''signups''" and persona = "''technical''"
      and e = "External ''ads endpoint unavailable''" and ?w2.0 = 0
      and ?tr1.0 = "[LogInfo ''Received message'',
           GetInitialMessage scenario_message (PStr ''C1'') (Inr scenario_message),
           LogInfo ''Initial message'']", THEN conjunct2, THEN conjunct2, THEN conjunct2, THEN conjunct2, THEN conjunct2, THEN conjunct1, THEN mp] r4 g4
    by simp
  have i5: "event_item reaction_plus_one = Some [(''channel'', PStr ''C1''), (''ts'', PStr ''T3'')]"
    by (simp add: reaction_plus_one_def)
  have l5: "conversations_replies failing_replies_env (PStr ''C1'') (PStr ''T3'') 0 =
       (Inl (External ''replies unavailable''), 0)"
    by (simp add: failing_replies_env_def demo_env_def)
  have c5: "fst (handle_reaction_added failing_replies_env reaction_plus_one (0, [])) =
       Inl (External ''replies unavailable'')"
    using exception_guard_scope[where E = failing_replies_env and ev = reaction_plus_one
      and item = "[(''channel'', PStr ''C1''), (''ts'', PStr ''T3'')]" and chn = "PStr ''C1''"
      and M = "PStr ''T3''" and w = 0 and w' = 0 and tr = "[]"
      and e = "External ''replies unavailable''", THEN conjunct2, THEN conjunct2, THEN conjunct2, THEN conjunct2, THEN conjunct2, THEN conjunct2, THEN conjunct2, THEN conjunct1, THEN mp] i5 l5
    by simp
  show ?thesis
    using a1 c1 r2 c2 s3 c3 g4 c4 l5 c5 by simp
qed

subsection \<open>The primary action\<close>

text \<open>
  Claim C3. Take a run of \<^verbatim>\<open>docsbot_handler\<close> in which no call raises, whose originating
  message has text \<open>Q\<close>, user \<open>U\<close>, timestamp \<open>T2\<close> and no \<^verbatim>\<open>thread_ts\<close>, and whose fetched
  chat history is empty. After the acknowledgement and the lookup of the originating message,
  the calls are, in this order: the fetch of the chat history for thread \<open>T2\<close>; the intro
  message; the query with \<open>Q\<close> and the empty history; the formatted answer, sent to thread
  \<open>T2\<close>; the reactions \<^verbatim>\<open>thumbsup\<close> and \<^verbatim>\<open>thumbsdown\<close> on the sent answer; the persist call
  with thread id \<open>T2\<close>, the timestamp of the sent answer as question-answer id, and every
  field of the dumped answer.
\<close>

theorem docsbot_scenario:
  assumes run: "docsbot_handler E body (w, []) = (r, (w', tr))"
    and im: "GetInitialMessage m c (Inr im) \<in> set tr"
    and msg: "dict_get im ''text'' = Q" "dict_get im ''user'' = U"
             "map_of im ''thread_ts'' = None" "dict_get im ''ts'' = PStr T2"
    and hist: "GetChatHistory a t (Inr []) \<in> set tr"
    and ok: "r = Inr ()" "\<forall>e. LogError e \<notin> set tr"
  shows "\<exists>i intro s0 answer_obj resp answer sent d.
      tr = [Ack (Inr ()), LogInfo ''Received message'', GetInitialMessage m c (Inr im),
            LogInfo ''Initial message'',
            GetChatHistory (APPLICATION E) (PStr T2) (Inr []),
            Say intro (Some (PStr T2)) (Inr s0),
            Query Q [] (bot_language E) (APPLICATION E) (Inr answer_obj),
            Say answer (Some (PStr T2)) (Inr sent),
            ReactionsAdd c (dict_get (resp_data sent) ''ts'') ''thumbsup'' (Inr ()),
            ReactionsAdd c (dict_get (resp_data sent) ''ts'') ''thumbsdown'' (Inr ()),
            CreateQuestionAnswer (PStr T2) (dict_get (resp_data sent) ''ts'') (bot_language E)
              d (Inr ())]
      \<and> intro_format E U = Inr i \<and> mrkdwn E i = Inr intro
      \<and> format_response E answer_obj (OUTRO_MESSAGE E) = Inr resp \<and> mrkdwn E resp = Inr answer
      \<and> model_dump E answer_obj = Inr d"
proof -
  have tid: "thread_id_of im = PStr T2"
    using msg by (simp add: thread_id_of_absent)
  from docsbot_handler_resolved[OF run im] ok obtain w2 where
    st: "docsbot_steps E im c
        (w2, [Ack (Inr ()), LogInfo ''Received message'', GetInitialMessage m c (Inr im),
              LogInfo ''Initial message'']) = (Inr (), (w', tr))"
    by auto
  from docsbot_steps_success[OF st] obtain h ro resp answer sent d kw pre where
    tr: "tr = [Ack (Inr ()), LogInfo ''Received message'', GetInitialMessage m c (Inr im),
              LogInfo ''Initial message''] @
       [GetChatHistory (APPLICATION E) (thread_id_of im) (Inr h)] @ pre @
       [Query (dict_get im ''text'') h (bot_language E) (APPLICATION E) (Inr ro),
        Say answer (to_thread (thread_id_of im)) (Inr sent),
        ReactionsAdd c (dict_get (resp_data sent) ''ts'') ''thumbsup'' (Inr ()),
        ReactionsAdd c (dict_get (resp_data sent) ''ts'') ''thumbsdown'' (Inr ()),
        CreateQuestionAnswer (thread_id_of im) (dict_get (resp_data sent) ''ts'') (bot_language E) kw (Inr ())]"
    and fmt: "format_response E ro (OUTRO_MESSAGE E) = Inr resp" "mrkdwn E resp = Inr answer"
    and dump: "model_dump E ro = Inr d" "merge_kwargs d = Inr kw"
    and pre: "if h = [] then \<exists>i intro s0. intro_format E (dict_get im ''user'') = Inr i \<and> mrkdwn E i = Inr intro
            \<and> pre = [Say intro (to_thread (thread_id_of im)) (Inr s0)]
         else pre = []"
    by blast
  have h: "h = []"
  proof (cases "h = []")
    case False
    with pre have "pre = []" by simp
    with hist tr show ?thesis by auto
  qed simp
  with pre obtain i intro s0 where
    intro: "intro_format E (dict_get im ''user'') = Inr i" "mrkdwn E i = Inr intro"
      "pre = [Say intro (to_thread (thread_id_of im)) (Inr s0)]"
    by auto
  have kw: "kw = d" using dump(2) by (rule merge_kwargs_Inr)
  show ?thesis
    using tr h intro fmt dump kw tid msg by (simp add: to_thread_def)
qed

theorem docsbot_scenario_witness:
  "GetInitialMessage scenario_message (PStr ''C1'') (Inr scenario_message)
     \<in> set (snd (snd (docsbot_handler demo_env (demo_body scenario_message) (0, []))))
   \<and> map_of scenario_message ''thread_ts'' = None
   \<and> dict_get scenario_message ''ts'' = PStr ''T2''
   \<and> fst (docsbot_handler demo_env (demo_body scenario_message) (0, [])) = Inr ()
   \<and> length (snd (snd (docsbot_handler demo_env (demo_body scenario_message) (0, [])))) = 11
   \<and> last (snd (snd (docsbot_handler demo_env (demo_body scenario_message) (0, [])))) =
       CreateQuestionAnswer (PStr ''T2'') (PInt 1) ''en'' [(''answer'', PStr ''Call wandb.log'')] (Inr ())"
proof -
  let ?tr = "snd (snd (docsbot_handler demo_env (demo_body scenario_message) (0, [])))"
  have run: "docsbot_handler demo_env (demo_body scenario_message) (0, []) = (Inr (), (2, ?tr))"
    by (simp add: demo_docsbot_trace)
  have mem: "GetInitialMessage scenario_message (PStr ''C1'') (Inr scenario_message) \<in> set ?tr"
    by (simp add: demo_docsbot_trace)
  have msg: "dict_get scenario_message ''text'' = PStr ''How do I log a metric?''"
    "dict_get scenario_message ''user'' = PStr ''U2''"
    "map_of scenario_message ''thread_ts'' = None"
    "dict_get scenario_message ''ts'' = PStr ''T2''"
    by (simp_all add: scenario_message_def dict_get_def)
  have hist: "GetChatHistory ''Slack_EN'' (PStr ''T2'') (Inr []) \<in> set ?tr"
    by (simp add: demo_docsbot_trace thread_id_of_absent msg)
  have ok: "\<forall>e. LogError e \<notin> set ?tr"
    by (simp add: demo_docsbot_trace)
  from docsbot_scenario[OF run mem msg hist refl ok] have "length ?tr = 11"
    by auto
  then show ?thesis using mem msg run by (simp add: demo_docsbot_trace thread_id_of_absent)
qed

subsection \<open>Feedback from a reaction\<close>

text \<open>
  Claim C4, as stated, fails: when the thread lookup itself raises, no thread is resolved for
  the message, and the reaction is not silently ignored: the exception leaves the handler.
\<close>

theorem reaction_feedback_counterexample:
  "handle_reaction_added failing_replies_env reaction_plus_one (0, []) =
     (Inl (External ''replies unavailable''),
      (0, [ConversationsReplies (PStr ''C1'') (PStr ''T3'') (Inl (External ''replies unavailable''))]))"
  by (simp add: failing_replies_env_def reaction_plus_one_def demo_run_defs)

text \<open>
  Claim C4, amended. Take a reaction on a message with timestamp \<open>M\<close>. If the single-message
  thread lookup returns and its first message has a truthy \<^verbatim>\<open>thread_ts\<close>, exactly one feedback
  record is submitted: its rating is 1 for the reaction \<^verbatim>\<open>+1\<close>, -1 for \<^verbatim>\<open>-1\<close> and 0 for any
  other, its question-answer id is \<open>M\<close> and its feedback id is the timestamp of the reaction
  event. If the lookup returns no messages, or a first message without a truthy
  \<^verbatim>\<open>thread_ts\<close>, nothing is submitted and the handler returns normally. If the lookup raises,
  nothing is submitted and the exception leaves the handler.
\<close>

theorem reaction_feedback:
  assumes run: "handle_reaction_added E ev (w, []) = (r, (w', tr))"
    and item: "event_item ev = Some item" "map_of item ''channel'' = Some ch"
              "map_of item ''ts'' = Some M"
  shows "(\<forall>conv w1 msgs reaction fid.
            conversations_replies E ch M w = (Inr conv, w1)
            \<and> resp_messages conv = Some msgs \<and> msgs \<noteq> [] \<and> truthy (dict_get (hd msgs) ''thread_ts'')
            \<and> event_reaction ev = Some reaction \<and> event_ts ev = Some fid \<longrightarrow>
            tr = [ConversationsReplies ch M (Inr conv),
                  CreateFeedback fid M
                    (if reaction = PStr ''+1'' then 1 else if reaction = PStr ''-1'' then - 1 else 0) r]
            \<and> create_feedback E fid M
                 (if reaction = PStr ''+1'' then 1 else if reaction = PStr ''-1'' then - 1 else 0) w1
               = (r, w'))
       \<and> (\<forall>conv w1.
            conversations_replies E ch M w = (Inr conv, w1)
            \<and> (resp_messages conv = None \<or> resp_messages conv = Some []
                \<or> (\<exists>msgs. resp_messages conv = Some msgs \<and> msgs \<noteq> []
                      \<and> \<not> truthy (dict_get (hd msgs) ''thread_ts''))) \<longrightarrow>
            tr = [ConversationsReplies ch M (Inr conv)] \<and> r = Inr () \<and> w' = w1)
       \<and> (\<forall>e w1.
            conversations_replies E ch M w = (Inl e, w1) \<longrightarrow>
            tr = [ConversationsReplies ch M (Inl e)] \<and> r = Inl e \<and> w' = w1)"
  using assms unfolding handle_reaction_added_def Let_def parse_reaction_def
  by (auto elim!: bindE performE liftE retE simp: item_opt_def dict_item_def
      split: option.splits if_splits)

theorem reaction_feedback_witness:
  "event_item reaction_plus_one = Some [(''channel'', PStr ''C1''), (''ts'', PStr ''T3'')]
   \<and> conversations_replies demo_env (PStr ''C1'') (PStr ''T3'') 0 =
       (Inr \<lparr>resp_data = [],
             resp_messages = Some [[(''ts'', PStr ''T3''), (''thread_ts'', PStr ''T1'')]]\<rparr>, 0)
   \<and> truthy (dict_get (hd [[(''ts'', PStr ''T3''), (''thread_ts'', PStr ''T1'')]]) ''thread_ts'')
   \<and> event_reaction reaction_plus_one = Some (PStr ''+1'')
   \<and> event_ts reaction_plus_one = Some (PStr ''E9'')
   \<and> snd (snd (handle_reaction_added demo_env reaction_plus_one (0, []))) =
       [ConversationsReplies (PStr ''C1'') (PStr ''T3'')
          (Inr \<lparr>resp_data = [],
                resp_messages = Some [[(''ts'', PStr ''T3''), (''thread_ts'', PStr ''T1'')]]\<rparr>),
        CreateFeedback (PStr ''E9'') (PStr ''T3'') 1 (Inr ())]
   \<and> snd (snd (handle_reaction_added demo_env reaction_minus_one (0, []))) =
       [ConversationsReplies (PStr ''C1'') (PStr ''T3'')
          (Inr \<lparr>resp_data = [],
                resp_messages = Some [[(''ts'', PStr ''T3''), (''thread_ts'', PStr ''T1'')]]\<rparr>),
        CreateFeedback (PStr ''E10'') (PStr ''T3'') (- 1) (Inr ())]
   \<and> snd (snd (handle_reaction_added demo_env reaction_heart (0, []))) =
       [ConversationsReplies (PStr ''C1'') (PStr ''T3'')
          (Inr \<lparr>resp_data = [],
                resp_messages = Some [[(''ts'', PStr ''T3''), (''thread_ts'', PStr ''T1'')]]\<rparr>),
        CreateFeedback (PStr ''E11'') (PStr ''T3'') 0 (Inr ())]
   \<and> conversations_replies unthreaded_env (PStr ''C1'') (PStr ''T3'') 0 =
       (Inr \<lparr>resp_data = [], resp_messages = Some [[(''ts'', PStr ''T3'')]]\<rparr>, 0)
   \<and> handle_reaction_added unthreaded_env reaction_plus_one (0, []) =
       (Inr (), (0, [ConversationsReplies (PStr ''C1'') (PStr ''T3'')
          (Inr \<lparr>resp_data = [], resp_messages = Some [[(''ts'', PStr ''T3'')]]\<rparr>)]))
   \<and> conversations_replies failing_replies_env (PStr ''C1'') (PStr ''T3'') 0 =
       (Inl (External ''replies unavailable''), 0)
   \<and> snd (snd (handle_reaction_added failing_replies_env reaction_plus_one (0, []))) =
       [ConversationsReplies (PStr ''C1'') (PStr ''T3'') (Inl (External ''replies unavailable''))]"
proof -
  let ?item = "[(''channel'', PStr ''C1''), (''ts'', PStr ''T3'')]"
  let ?msgs = "[[(''ts'', PStr ''T3''), (''thread_ts'', PStr ''T1'')]]"
  let ?conv = "\<lparr>resp_data = [], resp_messages = Some ?msgs\<rparr>"
  let ?conv' = "\<lparr>resp_data = [], resp_messages = Some [[(''ts'', PStr ''T3'')]]\<rparr>"
  obtain r1 w1 tr1 where run1: "handle_reaction_added demo_env reaction_plus_one (0, []) = (r1, (w1, tr1))"
    by (metis surj_pair)
  obtain r2 w2 tr2 where run2: "handle_reaction_added demo_env reaction_minus_one (0, []) = (r2, (w2, tr2))"
    by (metis surj_pair)
  obtain r3 w3 tr3 where run3: "handle_reaction_added demo_env reaction_heart (0, []) = (r3, (w3, tr3))"
    by (metis surj_pair)
  obtain r4 w4 tr4 where run4: "handle_reaction_added unthreaded_env reaction_plus_one (0, []) = (r4, (w4, tr4))"
    by (metis surj_pair)
  obtain r5 w5 tr5 where run5: "handle_reaction_added failing_replies_env reaction_plus_one (0, []) = (r5, (w5, tr5))"
    by (metis surj_pair)
  have item: "map_of ?item ''channel'' = Some (PStr ''C1'')" "map_of ?item ''ts'' = Some (PStr ''T3'')"
    by simp_all
  have ev1: "event_item reaction_plus_one = Some ?item"
    "event_reaction reaction_plus_one = Some (PStr ''+1'')"
    "event_ts reaction_plus_one = Some (PStr ''E9'')"
    by (simp_all add: reaction_plus_one_def)
  have ev2: "event_item reaction_minus_one = Some ?item"
    "event_reaction reaction_minus_one = Some (PStr ''-1'')"
    "event_ts reaction_minus_one = Some (PStr ''E10'')"
    by (simp_all add: reaction_minus_one_def)
  have ev3: "event_item reaction_heart = Some ?item"
    "event_reaction reaction_heart = Some (PStr ''heart'')"
    "event_ts reaction_heart = Some (PStr ''E11'')"
    by (simp_all add: reaction_heart_def)
  have l1: "conversations_replies demo_env (PStr ''C1'') (PStr ''T3'') 0 = (Inr ?conv, 0)"
    by (simp add: demo_env_def)
  have l4: "conversations_replies unthreaded_env (PStr ''C1'') (PStr ''T3'') 0 = (Inr ?conv', 0)"
    by (simp add: unthreaded_env_def demo_env_def)
  have l5: "conversations_replies failing_replies_env (PStr ''C1'') (PStr ''T3'') 0 =
       (Inl (External ''replies unavailable''), 0)"
    by (simp add: failing_replies_env_def demo_env_def)
  have t1: "truthy (dict_get (hd ?msgs) ''thread_ts'')"
    "\<not> truthy (dict_get (hd [[(''ts'', PStr ''T3'')]]) ''thread_ts'')"
    by (simp_all add: dict_get_def)
  have fb: "\<And>f q x. create_feedback demo_env f q x 0 = (Inr (), 0)"
    by (simp add: demo_env_def)
  have c1: "tr1 = [ConversationsReplies (PStr ''C1'') (PStr ''T3'') (Inr ?conv),
              CreateFeedback (PStr ''E9'') (PStr ''T3'') 1 (Inr ())]"
    using reaction_feedback[OF run1 ev1(1) item, THEN conjunct1, rule_format,
        of ?conv 0 ?msgs "PStr ''+1''" "PStr ''E9''"] l1 t1 ev1 fb
    by simp
  have c2: "tr2 = [ConversationsReplies (PStr ''C1'') (PStr ''T3'') (Inr ?conv),
              CreateFeedback (PStr ''E10'') (PStr ''T3'') (- 1) (Inr ())]"
    using reaction_feedback[OF run2 ev2(1) item, THEN conjunct1, rule_format,
        of ?conv 0 ?msgs "PStr ''-1''" "PStr ''E10''"] l1 t1 ev2 fb
    by simp
  have c3: "tr3 = [ConversationsReplies (PStr ''C1'') (PStr ''T3'') (Inr ?conv),
              CreateFeedback (PStr ''E11'') (PStr ''T3'') 0 (Inr ())]"
    using reaction_feedback[OF run3 ev3(1) item, THEN conjunct1, rule_format,
        of ?conv 0 ?msgs "PStr ''heart''" "PStr ''E11''"] l1 t1 ev3 fb
    by simp
  have c4: "tr4 = [ConversationsReplies (PStr ''C1'') (PStr ''T3'') (Inr ?conv')] \<and> r4 = Inr () \<and> w4 = 0"
    using reaction_feedback[OF run4 ev1(1) item, THEN conjunct2, THEN conjunct1, rule_format,
        of ?conv' 0] l4 t1
    by simp
  have c5: "tr5 = [ConversationsReplies (PStr ''C1'') (PStr ''T3'') (Inl (External ''replies unavailable''))]"
    using reaction_feedback[OF run5 ev1(1) item, THEN conjunct2, THEN conjunct2, rule_format,
        of "External ''replies unavailable''" 0] l5
    by simp
  show ?thesis
    using run1 run2 run3 run4 run5 c1 c2 c3 c4 c5 ev1 l1 l4 l5 t1 by simp
qed

subsection \<open>The intro message\<close>

text \<open>
  Claim C7. In a run of \<^verbatim>\<open>docsbot_handler\<close> that fetched the chat history \<open>h\<close>: if \<open>h\<close> is
  not empty, no message is sent before the query, and the only message sent after it is the
  formatted answer; if \<open>h\<close> is empty (and the intro text can be formatted), the intro is the
  one message sent before the query, and the only message sent after the query is the
  formatted answer.
\<close>

theorem intro_once_before_answer:
  assumes run: "docsbot_handler E body (w, []) = (r, (w', tr))"
    and im: "GetInitialMessage m c (Inr im) \<in> set tr"
    and hist: "GetChatHistory a t (Inr h) \<in> set tr"
  shows "(h \<noteq> [] \<longrightarrow> answer_tail E im h (filter is_send_or_query tr))
       \<and> (h = [] \<and> intro_format E (dict_get im ''user'') = Inr i \<and> mrkdwn E i = Inr intro \<longrightarrow>
            (\<exists>s0 rest. filter is_send_or_query tr = Say intro (to_thread (thread_id_of im)) s0 # rest
               \<and> answer_tail E im h rest))"
proof -
  let ?pre = "[Ack (Inr ()), LogInfo ''Received message'', GetInitialMessage m c (Inr im),
              LogInfo ''Initial message'']"
  from docsbot_handler_resolved[OF run im] obtain w2 r2 tr2 where
    st: "docsbot_steps E im c (w2, ?pre) = (r2, (w', tr2))"
    and tr: "(\<exists>e. tr = tr2 @ [LogError e]) \<or> tr = tr2" by blast
  from docsbot_steps_sends[OF st] obtain h' evs where
    tr2: "tr2 = ?pre @ GetChatHistory (APPLICATION E) (thread_id_of im) h' # evs"
    and one: "\<forall>e \<in> set evs. \<forall>a t x. e \<noteq> GetChatHistory a t x"
    and nonempty: "\<forall>hist. h' = Inr hist \<longrightarrow> hist \<noteq> [] \<longrightarrow> answer_tail E im hist (filter is_send_or_query evs)"
    and empty: "\<forall>i intro. h' = Inr [] \<longrightarrow> intro_format E (dict_get im ''user'') = Inr i \<longrightarrow>
          mrkdwn E i = Inr intro \<longrightarrow>
          (\<exists>s0 rest. filter is_send_or_query evs = Say intro (to_thread (thread_id_of im)) s0 # rest
             \<and> answer_tail E im [] rest)"
    by blast
  from hist tr tr2 one have h': "h' = Inr h" by (auto; blast)
  from tr tr2 have flt: "filter is_send_or_query tr = filter is_send_or_query evs" by auto
  show ?thesis using nonempty empty h' flt by auto
qed

theorem intro_once_before_answer_witness:
  "GetInitialMessage scenario_message (PStr ''C1'') (Inr scenario_message)
     \<in> set (snd (snd (docsbot_handler demo_env (demo_body scenario_message) (0, []))))
   \<and> GetChatHistory ''Slack_EN'' (PStr ''T2'') (Inr [])
     \<in> set (snd (snd (docsbot_handler demo_env (demo_body scenario_message) (0, []))))
   \<and> intro_format demo_env (dict_get scenario_message ''user'') = Inr ''Hi''
   \<and> mrkdwn demo_env ''Hi'' = Inr ''Hi''
   \<and> hd (filter is_send_or_query (snd (snd (docsbot_handler demo_env (demo_body scenario_message) (0, [])))))
       = Say ''Hi'' (Some (PStr ''T2'')) (Inr \<lparr>resp_data = [(''ts'', PInt 0)], resp_messages = None\<rparr>)
   \<and> length (filter is_send_or_query
        (snd (snd (docsbot_handler demo_env (demo_body scenario_message) (0, []))))) = 3"
proof -
  let ?tr = "snd (snd (docsbot_handler demo_env (demo_body scenario_message) (0, [])))"
  have tid: "thread_id_of scenario_message = PStr ''T2''"
    by (simp add: thread_id_of_def py_or_def dict_get_def scenario_message_def)
  have run: "docsbot_handler demo_env (demo_body scenario_message) (0, []) = (Inr (), (2, ?tr))"
    by (simp add: demo_docsbot_trace)
  have mem: "GetInitialMessage scenario_message (PStr ''C1'') (Inr scenario_message) \<in> set ?tr"
    by (simp add: demo_docsbot_trace)
  have hist: "GetChatHistory ''Slack_EN'' (PStr ''T2'') (Inr []) \<in> set ?tr"
    by (simp add: demo_docsbot_trace tid)
  have fm: "intro_format demo_env (dict_get scenario_message ''user'') = Inr ''Hi''"
    "mrkdwn demo_env ''Hi'' = Inr ''Hi''"
    by (simp_all add: demo_env_def)
  from intro_once_before_answer[OF run mem hist, of "''Hi''" "''Hi''"] fm
  obtain s0 rest where "filter is_send_or_query ?tr = Say ''Hi'' (to_thread (thread_id_of scenario_message)) s0 # rest"
    by auto
  then have "\<exists>s0. hd (filter is_send_or_query ?tr) = Say ''Hi'' (Some (PStr ''T2'')) s0"
    by (simp add: tid to_thread_def)
  then show ?thesis using mem hist fm by (simp add: demo_docsbot_trace tid to_thread_def)
qed

section \<open>Properties of partial formatting\<close>

declare markup_items.simps [simp del]

subsection \<open>Parsing and formatting a simple template\<close>











subsection \<open>Protecting and restoring the placeholders\<close>





lemma temp_prefix_head: "temp_prefix = CHR ''T'' # tl temp_prefix"
  by (simp add: temp_prefix_def)








declare str_replace_from.simps(2) [simp del]





















subsection \<open>The output on a simple template\<close>


subsection \<open>A placeholder with an attribute\<close>

text \<open>
  Claim C1. The template \<^verbatim>\<open>{a.b}\<close> has one placeholder, named \<^verbatim>\<open>a.b\<close>, and no value is
  supplied. The claim has the placeholder stay in the output as it is, with no missing-key
  failure. \<^verbatim>\<open>partial_format\<close> asks \<^verbatim>\<open>str.format\<close> for the key \<^verbatim>\<open>a\<close> and raises
  \<^verbatim>\<open>KeyError\<close>.
\<close>

theorem partial_format_attribute_placeholder:
  "placeholder_names ''{a.b}'' = Inr [''a.b'']
   \<and> partial_format rend id ''{a.b}'' Map.empty = Inl (KeyError ''a'')"
  by code_simp

subsection \<open>Parsing the output again\<close>




end
